theory Spec2Isabelle
  imports Complex_Main "HOL-Library.Word" "HOL-Library.AList" "HOL-Library.Char_ord"
    "HOL-Library.List_Lexorder"
begin

section \<open>Go values\<close>

text \<open>
  Go's \<^verbatim>\<open>int\<close> is taken at 64 bits, its width on the platforms the provider is
  usually built for, so that \<^verbatim>\<open>int\<close> and \<^verbatim>\<open>int64\<close> are the same two's complement
  integers; \<open>sint\<close> reads the signed value. Strings are byte sequences. Error values are kept structured: \<open>Wrap ctx e\<close> is
  \<^verbatim>\<open>fmt.Errorf("ctx: %w", e)\<close>, \<open>NotFound kind name\<close> is
  \<^verbatim>\<open>fmt.Errorf("kind %q not found", name)\<close>, \<open>APIError m\<close> is \<^verbatim>\<open>&APIError{Message: m}\<close>,
  and the remaining constructors are the errors that net/http, io and encoding/json hand
  back.
\<close>

type_synonym go_int = "64 word"

datatype error =
    LibError string
  | SyntaxError
  | UnmarshalTypeError
  | APIError string
  | Wrap string error
  | NotFound string string

subsection \<open>strings and strconv\<close>

definition HasSuffix :: "string \<Rightarrow> string \<Rightarrow> bool" where
  "HasSuffix s suffix \<longleftrightarrow>
     length suffix \<le> length s \<and> drop (length s - length suffix) s = suffix"

definition TrimSuffix :: "string \<Rightarrow> string \<Rightarrow> string" where
  "TrimSuffix s suffix =
     (if HasSuffix s suffix then take (length s - length suffix) s else s)"

fun Join :: "string list \<Rightarrow> string \<Rightarrow> string" where
  "Join [] sep = []"
| "Join [x] sep = x"
| "Join (x # y # ys) sep = x @ sep @ Join (y # ys) sep"

definition digit :: "nat \<Rightarrow> char" where
  "digit n = ''0123456789'' ! (n mod 10)"

fun digits :: "nat \<Rightarrow> string" where
  "digits n = (if n < 10 then [digit n] else digits (n div 10) @ [digit n])"

declare digits.simps [simp del]

definition Itoa :: "go_int \<Rightarrow> string" where
  "Itoa i = (if sint i < 0 then CHR ''-'' # digits (nat (- sint i)) else digits (nat (sint i)))"

definition boolToInt :: "bool \<Rightarrow> string" where
  "boolToInt b = (if b then ''1'' else ''0'')"

section \<open>encoding/json\<close>

text \<open>
  A response body is kept as the document that the scanner of encoding/json reads from
  it; \<open>NotJSON\<close> stands for every byte string that its syntax check rejects. Objects
  keep their members in document order, repeated keys included. A string is the Go
  string that the decoder makes of the token (\<open>unquote\<close> below). A number token is kept
  as the two readings the decoder can take of it: \<^verbatim>\<open>strconv.ParseInt(tok, 10, 64)\<close> for
  an integer target and \<^verbatim>\<open>strconv.ParseFloat(tok, 64)\<close> for \<^verbatim>\<open>interface{}\<close>, the
  float64 given by the rational it denotes; \<open>None\<close> is the reading that fails.
\<close>

datatype json =
    JNull
  | JBool bool
  | JNumber "go_int option" "rat option"
  | JString string
  | JArray "json list"
  | JObject "(string \<times> json) list"

datatype body = NotJSON | JSON json

subsection \<open>Strings as the decoder reads them\<close>

text \<open>
  The strings of a document, values and keys alike, are Go strings as the decoder's
  \<^verbatim>\<open>unquote\<close> returns them. \<^verbatim>\<open>unquote\<close> coerces the bytes of a string token to
  well-formed UTF-8: it reads them rune by rune with \<^verbatim>\<open>utf8.DecodeRune\<close> and writes
  U+FFFD (the bytes EF BF BD) for each byte that begins no well-formed encoding.
  \<open>rune_width\<close> is the width of the well-formed encoding at the head of a byte string,
  \<open>0\<close> when there is none; \<open>ValidString\<close> is \<^verbatim>\<open>utf8.ValidString\<close>. A document that a
  peer wrote with the bytes \<open>j\<close> in its tokens reaches the decoders as \<open>received j\<close>.
\<close>

definition between :: "nat \<Rightarrow> char \<Rightarrow> nat \<Rightarrow> bool" where
  "between lo c hi \<longleftrightarrow> lo \<le> of_char c \<and> (of_char c :: nat) \<le> hi"

definition accept :: "nat \<Rightarrow> nat \<Rightarrow> nat \<Rightarrow> string \<Rightarrow> nat" where
  "accept lo hi n cs =
     (case cs of
        [] \<Rightarrow> 0
      | c # rest \<Rightarrow>
          if between lo c hi \<and> n \<le> length rest \<and>
             list_all (\<lambda>c. between 0x80 c 0xBF) (take n rest)
          then n + 2 else 0)"

definition rune_width :: "string \<Rightarrow> nat" where
  "rune_width s =
     (case s of
        [] \<Rightarrow> 0
      | c # cs \<Rightarrow>
          if (of_char c :: nat) < 0x80 then 1
          else if between 0xC2 c 0xDF then accept 0x80 0xBF 0 cs
          else if between 0xE0 c 0xE0 then accept 0xA0 0xBF 1 cs
          else if between 0xE1 c 0xEC then accept 0x80 0xBF 1 cs
          else if between 0xED c 0xED then accept 0x80 0x9F 1 cs
          else if between 0xEE c 0xEF then accept 0x80 0xBF 1 cs
          else if between 0xF0 c 0xF0 then accept 0x90 0xBF 2 cs
          else if between 0xF1 c 0xF3 then accept 0x80 0xBF 2 cs
          else if between 0xF4 c 0xF4 then accept 0x80 0x8F 2 cs
          else 0)"

function unquote :: "string \<Rightarrow> string" where
  "unquote [] = []"
| "unquote (c # cs) =
     (if rune_width (c # cs) = 0 then [CHR 0xEF, CHR 0xBF, CHR 0xBD] @ unquote cs
      else c # take (rune_width (c # cs) - 1) cs @ unquote (drop (rune_width (c # cs) - 1) cs))"
  by pat_completeness auto
termination
  by (relation "measure length") simp_all

function ValidString :: "string \<Rightarrow> bool" where
  "ValidString [] = True"
| "ValidString (c # cs) =
     (rune_width (c # cs) \<noteq> 0 \<and> ValidString (drop (rune_width (c # cs) - 1) cs))"
  by pat_completeness auto
termination
  by (relation "measure length") simp_all

fun received :: "json \<Rightarrow> json"
  and received_elems :: "json list \<Rightarrow> json list"
  and received_members :: "(string \<times> json) list \<Rightarrow> (string \<times> json) list"
where
  "received JNull = JNull"
| "received (JBool b) = JBool b"
| "received (JNumber i f) = JNumber i f"
| "received (JString s) = JString (unquote s)"
| "received (JArray xs) = JArray (received_elems xs)"
| "received (JObject kvs) = JObject (received_members kvs)"
| "received_elems [] = []"
| "received_elems (x # xs) = received x # received_elems xs"
| "received_members [] = []"
| "received_members ((k, x) # kvs) = (unquote k, received x) # received_members kvs"

subsection \<open>Decoders\<close>

text \<open>The dynamic values that decoding into \<^verbatim>\<open>interface{}\<close> produces.\<close>

datatype any =
    AnyNil
  | AnyBool bool
  | AnyFloat64 rat
  | AnyString string
  | AnySlice "any list"
  | AnyMap "(string \<times> any) list"

text \<open>
  A decoder for a Go type takes the JSON value and the current content of the
  destination and gives the new content. The library records the earliest type
  mismatch, decodes the rest and returns that error; the callers in this repository drop
  the destination whenever an error comes back, so the model stops at the first mismatch.
  A string of the document is a Go string already, so a string destination takes it as
  it is; the coercion to UTF-8 has happened where the reply was read (\<open>received\<close>).
\<close>

type_synonym 'a decoder = "json \<Rightarrow> 'a \<Rightarrow> error + 'a"

fun valueInterface :: "json \<Rightarrow> error + any"
  and arrayInterface :: "json list \<Rightarrow> error + any list"
  and objectInterface :: "(string \<times> json) list \<Rightarrow> (string \<times> any) list \<Rightarrow> error + (string \<times> any) list"
where
  "valueInterface JNull = Inr AnyNil"
| "valueInterface (JBool b) = Inr (AnyBool b)"
| "valueInterface (JNumber i f) =
     (case f of None \<Rightarrow> Inl UnmarshalTypeError | Some x \<Rightarrow> Inr (AnyFloat64 x))"
| "valueInterface (JString s) = Inr (AnyString s)"
| "valueInterface (JArray xs) =
     (case arrayInterface xs of Inl e \<Rightarrow> Inl e | Inr vs \<Rightarrow> Inr (AnySlice vs))"
| "valueInterface (JObject kvs) =
     (case objectInterface kvs [] of Inl e \<Rightarrow> Inl e | Inr m \<Rightarrow> Inr (AnyMap m))"
| "arrayInterface [] = Inr []"
| "arrayInterface (x # xs) =
     (case valueInterface x of
        Inl e \<Rightarrow> Inl e
      | Inr v \<Rightarrow> (case arrayInterface xs of Inl e \<Rightarrow> Inl e | Inr vs \<Rightarrow> Inr (v # vs)))"
| "objectInterface [] m = Inr m"
| "objectInterface ((k, x) # kvs) m =
     (case valueInterface x of
        Inl e \<Rightarrow> Inl e
      | Inr v \<Rightarrow> objectInterface kvs (AList.update k v m))"

definition dec_string :: "string decoder" where
  "dec_string j cur =
     (case j of JString s \<Rightarrow> Inr s | JNull \<Rightarrow> Inr cur | _ \<Rightarrow> Inl UnmarshalTypeError)"

definition dec_int :: "go_int decoder" where
  "dec_int j cur =
     (case j of
        JNumber i f \<Rightarrow> (case i of Some n \<Rightarrow> Inr n | None \<Rightarrow> Inl UnmarshalTypeError)
      | JNull \<Rightarrow> Inr cur
      | _ \<Rightarrow> Inl UnmarshalTypeError)"

text \<open>
  A slice: element \<open>i\<close> of the array is decoded over element \<open>i\<close> of the slice when the
  slice already has one (a repeated key), over the zero value \<open>z\<close> otherwise, and the
  slice ends up as long as the array.
\<close>

fun dec_elems :: "'a decoder \<Rightarrow> 'a \<Rightarrow> json list \<Rightarrow> 'a list \<Rightarrow> error + 'a list" where
  "dec_elems d z [] cur = Inr []"
| "dec_elems d z (x # xs) cur =
     (case d x (case cur of [] \<Rightarrow> z | c # _ \<Rightarrow> c) of
        Inl e \<Rightarrow> Inl e
      | Inr v \<Rightarrow> (case dec_elems d z xs (tl cur) of Inl e \<Rightarrow> Inl e | Inr vs \<Rightarrow> Inr (v # vs)))"

definition dec_slice :: "'a decoder \<Rightarrow> 'a \<Rightarrow> 'a list decoder" where
  "dec_slice d z j cur =
     (case j of
        JArray xs \<Rightarrow> dec_elems d z xs cur
      | JNull \<Rightarrow> Inr []
      | _ \<Rightarrow> Inl UnmarshalTypeError)"

text \<open>\<^verbatim>\<open>map[string]interface{}\<close>: a nil map and an empty one are both \<open>[]\<close>.\<close>

definition dec_map :: "(string \<times> any) list decoder" where
  "dec_map j cur =
     (case j of
        JObject kvs \<Rightarrow> objectInterface kvs cur
      | JNull \<Rightarrow> Inr []
      | _ \<Rightarrow> Inl UnmarshalTypeError)"

text \<open>
  A struct: each member of the object is matched to a field by its JSON name, exactly
  if possible and otherwise with letter case folded (\<^verbatim>\<open>foldName\<close>, which also takes
  U+017F to S and U+212A to K); a member that matches no field is skipped.
\<close>

definition upper :: "char \<Rightarrow> char" where
  "upper c =
     (case map_of (zip ''abcdefghijklmnopqrstuvwxyz'' ''ABCDEFGHIJKLMNOPQRSTUVWXYZ'') c of
        Some u \<Rightarrow> u
      | None \<Rightarrow> c)"

fun foldName :: "string \<Rightarrow> string" where
  "foldName [] = []"
| "foldName (c # cs) =
     (if c = CHR 0xC5 \<and> take 1 cs = [CHR 0xBF] then CHR ''S'' # foldName (drop 1 cs)
      else if c = CHR 0xE2 \<and> take 2 cs = [CHR 0x84, CHR 0xAA] then CHR ''K'' # foldName (drop 2 cs)
      else upper c # foldName cs)"

definition field_for :: "(string \<times> 'f) list \<Rightarrow> string \<Rightarrow> 'f option" where
  "field_for fields key =
     (case map_of fields key of
        Some f \<Rightarrow> Some f
      | None \<Rightarrow> map_option snd (find (\<lambda>(n, f). foldName n = foldName key) fields))"

fun dec_members :: "(string \<times> 'a decoder) list \<Rightarrow> (string \<times> json) list \<Rightarrow> 'a \<Rightarrow> error + 'a" where
  "dec_members fields [] a = Inr a"
| "dec_members fields ((k, v) # kvs) a =
     (case field_for fields k of
        None \<Rightarrow> dec_members fields kvs a
      | Some f \<Rightarrow> (case f v a of Inl e \<Rightarrow> Inl e | Inr a' \<Rightarrow> dec_members fields kvs a'))"

definition dec_struct :: "(string \<times> 'a decoder) list \<Rightarrow> 'a decoder" where
  "dec_struct fields j a =
     (case j of
        JObject kvs \<Rightarrow> dec_members fields kvs a
      | JNull \<Rightarrow> Inr a
      | _ \<Rightarrow> Inl UnmarshalTypeError)"

definition field :: "('a \<Rightarrow> 'b) \<Rightarrow> (('b \<Rightarrow> 'b) \<Rightarrow> 'a \<Rightarrow> 'a) \<Rightarrow> 'b decoder \<Rightarrow> 'a decoder" where
  "field get upd d j a = (case d j (get a) of Inl e \<Rightarrow> Inl e | Inr v \<Rightarrow> Inr (upd (\<lambda>_. v) a))"

text \<open>\<^verbatim>\<open>json.Unmarshal(body, &x)\<close>, for \<open>x\<close> of the type decoded by \<open>d\<close>.\<close>

definition Unmarshal :: "body \<Rightarrow> 'a decoder \<Rightarrow> 'a \<Rightarrow> error + 'a" where
  "Unmarshal b d x = (case b of NotJSON \<Rightarrow> Inl SyntaxError | JSON j \<Rightarrow> d j x)"

section \<open>net/url\<close>

text \<open>
  \<^verbatim>\<open>url.Values\<close> as this repository uses it: every key is written with \<^verbatim>\<open>Set\<close>, so
  it holds one value. The list is the map; its order does not reach the request, since
  \<^verbatim>\<open>Encode\<close> sorts by key.
\<close>

type_synonym Values = "(string \<times> string) list"

definition Values_Set :: "string \<Rightarrow> string \<Rightarrow> Values \<Rightarrow> Values" where
  "Values_Set key v params = AList.update key v params"

definition shouldEscape :: "char \<Rightarrow> bool" where
  "shouldEscape c \<longleftrightarrow>
     c \<notin> set ''abcdefghijklmnopqrstuvwxyzABCDEFGHIJKLMNOPQRSTUVWXYZ0123456789-_.~''"

definition upperhex :: "nat \<Rightarrow> char" where
  "upperhex n = ''0123456789ABCDEF'' ! (n mod 16)"

definition escape :: "char \<Rightarrow> string" where
  "escape c =
     (if c = CHR '' '' then ''+''
      else if shouldEscape c then [CHR ''%'', upperhex (of_char c div 16), upperhex (of_char c)]
      else [c])"

definition QueryEscape :: "string \<Rightarrow> string" where
  "QueryEscape s = concat (map escape s)"

definition Encode :: "Values \<Rightarrow> string" where
  "Encode v =
     Join (map (\<lambda>k. QueryEscape k @ ''='' @ QueryEscape (case map_of v k of Some x \<Rightarrow> x | None \<Rightarrow> ''''))
            (sort (remdups (map fst v)))) ''&''"

section \<open>The client\<close>

subsection \<open>Configuration types\<close>

record Server =
  Name :: string
  Host :: string
  Port :: go_int
  Username :: string
  Password :: string
  Connections :: go_int
  SSL :: go_int
  SSLVerify :: go_int
  SSLCiphers :: string
  Enable :: go_int
  Optional :: go_int
  Retention :: go_int
  Timeout :: go_int
  Priority :: go_int
  Required :: go_int
  Notes :: string

record Category =
  Name :: string
  Dir :: string
  Script :: string
  Priority :: go_int
  PP :: string
  Order :: go_int

record RSSFeed =
  Name :: string
  URI :: "string list"
  Cat :: string
  PP :: string
  Script :: string
  Enable :: go_int
  Priority :: go_int

record Sorter =
  Name :: string
  Order :: go_int
  SortString :: string
  SortCats :: "string list"
  SortType :: "go_int list"
  IsActive :: go_int

record Config =
  Misc :: "(string \<times> any) list"
  Servers :: "Server list"
  Categories :: "Category list"
  RSS :: "RSSFeed list"
  Sorters :: "Sorter list"

record GetConfigResponse =
  Config :: Config

definition zero_Server :: Server where
  "zero_Server =
     \<lparr>Server.Name = [], Host = [], Port = 0, Username = [], Password = [], Connections = 0,
      SSL = 0, SSLVerify = 0, SSLCiphers = [], Server.Enable = 0, Optional = 0, Retention = 0,
      Timeout = 0, Server.Priority = 0, Required = 0, Notes = []\<rparr>"

definition zero_Category :: Category where
  "zero_Category =
     \<lparr>Category.Name = [], Dir = [], Category.Script = [], Category.Priority = 0,
      Category.PP = [], Category.Order = 0\<rparr>"

definition zero_RSSFeed :: RSSFeed where
  "zero_RSSFeed =
     \<lparr>RSSFeed.Name = [], URI = [], Cat = [], RSSFeed.PP = [], RSSFeed.Script = [],
      RSSFeed.Enable = 0, RSSFeed.Priority = 0\<rparr>"

definition zero_Sorter :: Sorter where
  "zero_Sorter =
     \<lparr>Sorter.Name = [], Sorter.Order = 0, SortString = [], SortCats = [], SortType = [],
      IsActive = 0\<rparr>"

definition zero_Config :: Config where
  "zero_Config = \<lparr>Misc = [], Servers = [], Categories = [], RSS = [], Sorters = []\<rparr>"

definition zero_GetConfigResponse :: GetConfigResponse where
  "zero_GetConfigResponse = \<lparr>Config = zero_Config\<rparr>"

text \<open>The decoders that the \<^verbatim>\<open>json:"..."\<close> tags of these types select.\<close>

definition dec_Server :: "Server decoder" where
  "dec_Server = dec_struct
     [(''name'', field Server.Name Server.Name_update dec_string),
      (''host'', field Host Host_update dec_string),
      (''port'', field Port Port_update dec_int),
      (''username'', field Username Username_update dec_string),
      (''password'', field Password Password_update dec_string),
      (''connections'', field Connections Connections_update dec_int),
      (''ssl'', field SSL SSL_update dec_int),
      (''ssl_verify'', field SSLVerify SSLVerify_update dec_int),
      (''ssl_ciphers'', field SSLCiphers SSLCiphers_update dec_string),
      (''enable'', field Server.Enable Server.Enable_update dec_int),
      (''optional'', field Optional Optional_update dec_int),
      (''retention'', field Retention Retention_update dec_int),
      (''timeout'', field Timeout Timeout_update dec_int),
      (''priority'', field Server.Priority Server.Priority_update dec_int),
      (''required'', field Required Required_update dec_int),
      (''notes'', field Notes Notes_update dec_string)]"

definition dec_Category :: "Category decoder" where
  "dec_Category = dec_struct
     [(''name'', field Category.Name Category.Name_update dec_string),
      (''dir'', field Dir Dir_update dec_string),
      (''script'', field Category.Script Category.Script_update dec_string),
      (''priority'', field Category.Priority Category.Priority_update dec_int),
      (''pp'', field Category.PP Category.PP_update dec_string),
      (''order'', field Category.Order Category.Order_update dec_int)]"

definition dec_RSSFeed :: "RSSFeed decoder" where
  "dec_RSSFeed = dec_struct
     [(''name'', field RSSFeed.Name RSSFeed.Name_update dec_string),
      (''uri'', field URI URI_update (dec_slice dec_string [])),
      (''cat'', field Cat Cat_update dec_string),
      (''pp'', field RSSFeed.PP RSSFeed.PP_update dec_string),
      (''script'', field RSSFeed.Script RSSFeed.Script_update dec_string),
      (''enable'', field RSSFeed.Enable RSSFeed.Enable_update dec_int),
      (''priority'', field RSSFeed.Priority RSSFeed.Priority_update dec_int)]"

definition dec_Sorter :: "Sorter decoder" where
  "dec_Sorter = dec_struct
     [(''name'', field Sorter.Name Sorter.Name_update dec_string),
      (''order'', field Sorter.Order Sorter.Order_update dec_int),
      (''sort_string'', field SortString SortString_update dec_string),
      (''sort_cats'', field SortCats SortCats_update (dec_slice dec_string [])),
      (''sort_type'', field SortType SortType_update (dec_slice dec_int 0)),
      (''is_active'', field IsActive IsActive_update dec_int)]"

definition dec_Config :: "Config decoder" where
  "dec_Config = dec_struct
     [(''misc'', field Misc Misc_update dec_map),
      (''servers'', field Servers Servers_update (dec_slice dec_Server zero_Server)),
      (''categories'', field Categories Categories_update (dec_slice dec_Category zero_Category)),
      (''rss'', field RSS RSS_update (dec_slice dec_RSSFeed zero_RSSFeed)),
      (''sorters'', field Sorters Sorters_update (dec_slice dec_Sorter zero_Sorter))]"

definition dec_GetConfigResponse :: "GetConfigResponse decoder" where
  "dec_GetConfigResponse = dec_struct [(''config'', field Config Config_update dec_Config)]"

subsection \<open>Transport\<close>

text \<open>
  The network as the client sees it through \<^verbatim>\<open>http.NewRequestWithContext\<close>,
  \<^verbatim>\<open>httpClient.Do\<close> and \<^verbatim>\<open>io.ReadAll\<close>: for a request URL and the state \<open>'w\<close> of
  the world, what comes back and the state after. Each of the three calls can fail.
\<close>

datatype http_outcome =
    NewRequestFailed error
  | DoFailed error
  | ReadAllFailed error
  | Response body

record 'w Client =
  baseURL :: string
  apiKey :: string
  httpClient :: "string \<Rightarrow> 'w \<Rightarrow> http_outcome \<times> 'w"

definition NewClient :: "string \<Rightarrow> string \<Rightarrow> (string \<Rightarrow> 'w \<Rightarrow> http_outcome \<times> 'w) \<Rightarrow> 'w Client" where
  "NewClient baseURL' apiKey' net =
     \<lparr>baseURL = TrimSuffix baseURL' ''/'', apiKey = apiKey', httpClient = net\<rparr>"

record errorResp =
  Error :: string

definition dec_errorResp :: "errorResp decoder" where
  "dec_errorResp = dec_struct [(''error'', field Error Error_update dec_string)]"

text \<open>
  \<open>result\<close> is the pointer argument: \<open>None\<close> for \<^verbatim>\<open>nil\<close>, otherwise the decoder of
  the pointed-to type with the variable's content. The function returns the error, or
  the content of the variable afterwards.
\<close>

definition doRequest ::
  "'w Client \<Rightarrow> Values \<Rightarrow> ('a decoder \<times> 'a) option \<Rightarrow> 'w \<Rightarrow> (error + 'a option) \<times> 'w" where
  "doRequest c params result w =
     (let params = Values_Set ''apikey'' (apiKey c) params;
          params = Values_Set ''output'' ''json'' params;
          reqURL = baseURL c @ ''/api?'' @ Encode params
      in case httpClient c reqURL w of
           (NewRequestFailed err, w') \<Rightarrow> (Inl (Wrap ''creating request'' err), w')
         | (DoFailed err, w') \<Rightarrow> (Inl (Wrap ''executing request'' err), w')
         | (ReadAllFailed err, w') \<Rightarrow> (Inl (Wrap ''reading response body'' err), w')
         | (Response body, w') \<Rightarrow>
             (case Unmarshal body dec_errorResp \<lparr>Error = []\<rparr> of
                Inr errorResp \<Rightarrow>
                  if Error errorResp \<noteq> [] then (Inl (APIError (Error errorResp)), w')
                  else (case result of
                          None \<Rightarrow> (Inr None, w')
                        | Some (d, x) \<Rightarrow>
                            (case Unmarshal body d x of
                               Inl err \<Rightarrow> (Inl (Wrap ''decoding response'' err), w')
                             | Inr v \<Rightarrow> (Inr (Some v), w')))
              | Inl _ \<Rightarrow>
                  (case result of
                     None \<Rightarrow> (Inr None, w')
                   | Some (d, x) \<Rightarrow>
                       (case Unmarshal body d x of
                          Inl err \<Rightarrow> (Inl (Wrap ''decoding response'' err), w')
                        | Inr v \<Rightarrow> (Inr (Some v), w')))))"

definition GetConfig :: "'w Client \<Rightarrow> 'w \<Rightarrow> (error + Config) \<times> 'w" where
  "GetConfig c w =
     (let params = Values_Set ''mode'' ''get_config'' []
      in case doRequest c params (Some (dec_GetConfigResponse, zero_GetConfigResponse)) w of
           (Inl err, w') \<Rightarrow> (Inl (Wrap ''getting config'' err), w')
         | (Inr resp, w') \<Rightarrow>
             (Inr (Config (case resp of Some r \<Rightarrow> r | None \<Rightarrow> zero_GetConfigResponse)), w'))"

subsection \<open>Statements\<close>

text \<open>
  \<open>when b f\<close> is an \<^verbatim>\<open>if b { ... }\<close> statement with no else branch, \<open>if_ok r f\<close> is
  \<^verbatim>\<open>if v, ok := r; ok { ... }\<close>; a type assertion \<^verbatim>\<open>m[k].(T)\<close> on a map of dynamic
  values gives the value when the key is there and holds a \<open>T\<close>.
\<close>

definition "when" :: "bool \<Rightarrow> ('a \<Rightarrow> 'a) \<Rightarrow> 'a \<Rightarrow> 'a" where
  "when b f x = (if b then f x else x)"

definition if_ok :: "'v option \<Rightarrow> ('v \<Rightarrow> 'a \<Rightarrow> 'a) \<Rightarrow> 'a \<Rightarrow> 'a" where
  "if_ok r f x = (case r of Some v \<Rightarrow> f v x | None \<Rightarrow> x)"

definition assert_string :: "any option \<Rightarrow> string option" where
  "assert_string x = (case x of Some (AnyString v) \<Rightarrow> Some v | _ \<Rightarrow> None)"

definition assert_float64 :: "any option \<Rightarrow> rat option" where
  "assert_float64 x = (case x of Some (AnyFloat64 v) \<Rightarrow> Some v | _ \<Rightarrow> None)"

text \<open>
  The conversion \<^verbatim>\<open>int(v)\<close> of a float64 drops the fraction. Go leaves the result open
  when the value does not fit; the model takes what amd64 gives, the least integer.
\<close>

definition float64_to_int :: "rat \<Rightarrow> go_int" where
  "float64_to_int v =
     (let t = (if v < 0 then - \<lfloor>- v\<rfloor> else \<lfloor>v\<rfloor>)
      in if - (2 ^ 63) \<le> t \<and> t < 2 ^ 63 then word_of_int t else word_of_int (- (2 ^ 63)))"

subsection \<open>Servers\<close>

record ServerInput =
  Name :: string
  Host :: string
  Port :: go_int
  Username :: string
  Password :: string
  Connections :: go_int
  SSL :: bool
  SSLVerify :: go_int
  SSLCiphers :: string
  Enable :: bool
  Optional :: bool
  Retention :: go_int
  Timeout :: go_int
  Priority :: go_int
  Required :: bool
  Notes :: string

text \<open>The parameters that \<^verbatim>\<open>SetServer\<close> builds before it hands them to \<^verbatim>\<open>doRequest\<close>.\<close>

definition SetServer_params :: "ServerInput \<Rightarrow> Values" where
  "SetServer_params input =
     (let params = [];
          params = Values_Set ''mode'' ''set_config'' params;
          params = Values_Set ''section'' ''servers'' params;
          params = Values_Set ''name'' (ServerInput.Name input) params;
          params = Values_Set ''host'' (ServerInput.Host input) params;
          params = Values_Set ''port'' (Itoa (ServerInput.Port input)) params;
          params = Values_Set ''username'' (ServerInput.Username input) params;
          params = Values_Set ''password'' (ServerInput.Password input) params;
          params = Values_Set ''connections'' (Itoa (ServerInput.Connections input)) params;
          params = Values_Set ''ssl'' (boolToInt (ServerInput.SSL input)) params;
          params = Values_Set ''ssl_verify'' (Itoa (ServerInput.SSLVerify input)) params;
          params = Values_Set ''ssl_ciphers'' (ServerInput.SSLCiphers input) params;
          params = Values_Set ''enable'' (boolToInt (ServerInput.Enable input)) params;
          params = Values_Set ''optional'' (boolToInt (ServerInput.Optional input)) params;
          params = Values_Set ''retention'' (Itoa (ServerInput.Retention input)) params;
          params = Values_Set ''timeout'' (Itoa (ServerInput.Timeout input)) params;
          params = Values_Set ''priority'' (Itoa (ServerInput.Priority input)) params;
          params = Values_Set ''required'' (boolToInt (ServerInput.Required input)) params;
          params = Values_Set ''notes'' (ServerInput.Notes input) params
      in params)"

definition SetServer :: "'w Client \<Rightarrow> ServerInput \<Rightarrow> 'w \<Rightarrow> (error + unit) \<times> 'w" where
  "SetServer c input w =
     (case doRequest c (SetServer_params input) (Some (dec_map, [])) w of
        (Inl err, w') \<Rightarrow> (Inl (Wrap ''setting server config'' err), w')
      | (Inr resp, w') \<Rightarrow> (Inr (), w'))"

definition GetServer :: "'w Client \<Rightarrow> string \<Rightarrow> 'w \<Rightarrow> (error + Server) \<times> 'w" where
  "GetServer c name w =
     (case GetConfig c w of
        (Inl err, w') \<Rightarrow> (Inl err, w')
      | (Inr config, w') \<Rightarrow>
          (case find (\<lambda>server. Server.Name server = name) (Servers config) of
             Some server \<Rightarrow> (Inr server, w')
           | None \<Rightarrow> (Inl (NotFound ''server'' name), w')))"

definition DeleteServer :: "'w Client \<Rightarrow> string \<Rightarrow> 'w \<Rightarrow> (error + unit) \<times> 'w" where
  "DeleteServer c name w =
     (let params = [];
          params = Values_Set ''mode'' ''del_config'' params;
          params = Values_Set ''section'' ''servers'' params;
          params = Values_Set ''keyword'' name params
      in case doRequest c params (Some (dec_map, [])) w of
           (Inl err, w') \<Rightarrow> (Inl (Wrap ''deleting server config'' err), w')
         | (Inr resp, w') \<Rightarrow> (Inr (), w'))"

subsection \<open>Categories\<close>

record CategoryInput =
  Name :: string
  Dir :: string
  Script :: string
  Priority :: go_int
  PP :: string
  Order :: go_int

definition SetCategory_params :: "CategoryInput \<Rightarrow> Values" where
  "SetCategory_params input =
     (let params = [];
          params = Values_Set ''mode'' ''set_config'' params;
          params = Values_Set ''section'' ''categories'' params;
          params = Values_Set ''name'' (CategoryInput.Name input) params;
          params = Values_Set ''dir'' (CategoryInput.Dir input) params;
          params = Values_Set ''script'' (CategoryInput.Script input) params;
          params = Values_Set ''priority'' (Itoa (CategoryInput.Priority input)) params;
          params = Values_Set ''pp'' (CategoryInput.PP input) params;
          params = Values_Set ''order'' (Itoa (CategoryInput.Order input)) params
      in params)"

definition SetCategory :: "'w Client \<Rightarrow> CategoryInput \<Rightarrow> 'w \<Rightarrow> (error + unit) \<times> 'w" where
  "SetCategory c input w =
     (case doRequest c (SetCategory_params input) (Some (dec_map, [])) w of
        (Inl err, w') \<Rightarrow> (Inl (Wrap ''setting category config'' err), w')
      | (Inr resp, w') \<Rightarrow> (Inr (), w'))"

definition GetCategory :: "'w Client \<Rightarrow> string \<Rightarrow> 'w \<Rightarrow> (error + Category) \<times> 'w" where
  "GetCategory c name w =
     (case GetConfig c w of
        (Inl err, w') \<Rightarrow> (Inl err, w')
      | (Inr config, w') \<Rightarrow>
          (case find (\<lambda>cat. Category.Name cat = name) (Categories config) of
             Some cat \<Rightarrow> (Inr cat, w')
           | None \<Rightarrow> (Inl (NotFound ''category'' name), w')))"

definition DeleteCategory :: "'w Client \<Rightarrow> string \<Rightarrow> 'w \<Rightarrow> (error + unit) \<times> 'w" where
  "DeleteCategory c name w =
     (let params = [];
          params = Values_Set ''mode'' ''del_config'' params;
          params = Values_Set ''section'' ''categories'' params;
          params = Values_Set ''keyword'' name params
      in case doRequest c params (Some (dec_map, [])) w of
           (Inl err, w') \<Rightarrow> (Inl (Wrap ''deleting category config'' err), w')
         | (Inr resp, w') \<Rightarrow> (Inr (), w'))"

subsection \<open>Folders\<close>

record FoldersInput =
  DownloadDir :: string
  DownloadFree :: string
  CompleteDir :: string
  CompleteFree :: string
  AutoResume :: bool
  Permissions :: string
  WatchedDir :: string
  WatchedDirScanSpeed :: go_int
  ScriptsDir :: string
  EmailTemplatesDir :: string
  PasswordFile :: string
  NzbBackupDir :: string
  AdminDir :: string
  BackupDir :: string
  LogDir :: string

record Folders =
  DownloadDir :: string
  DownloadFree :: string
  CompleteDir :: string
  CompleteFree :: string
  AutoResume :: go_int
  Permissions :: string
  WatchedDir :: string
  WatchedDirScanSpeed :: go_int
  ScriptsDir :: string
  EmailTemplatesDir :: string
  PasswordFile :: string
  NzbBackupDir :: string
  AdminDir :: string
  BackupDir :: string
  LogDir :: string

definition zero_Folders :: Folders where
  "zero_Folders =
     \<lparr>Folders.DownloadDir = [], Folders.DownloadFree = [], Folders.CompleteDir = [],
      Folders.CompleteFree = [], Folders.AutoResume = 0, Folders.Permissions = [],
      Folders.WatchedDir = [], Folders.WatchedDirScanSpeed = 0, Folders.ScriptsDir = [],
      Folders.EmailTemplatesDir = [], Folders.PasswordFile = [], Folders.NzbBackupDir = [],
      Folders.AdminDir = [], Folders.BackupDir = [], Folders.LogDir = []\<rparr>"

definition SetFolders_params :: "FoldersInput \<Rightarrow> Values" where
  "SetFolders_params input =
     (let params = [];
          params = Values_Set ''mode'' ''set_config'' params;
          params = Values_Set ''section'' ''misc'' params;
          params = when (FoldersInput.DownloadDir input \<noteq> [])
                     (Values_Set ''download_dir'' (FoldersInput.DownloadDir input)) params;
          params = when (FoldersInput.DownloadFree input \<noteq> [])
                     (Values_Set ''download_free'' (FoldersInput.DownloadFree input)) params;
          params = when (FoldersInput.CompleteDir input \<noteq> [])
                     (Values_Set ''complete_dir'' (FoldersInput.CompleteDir input)) params;
          params = when (FoldersInput.CompleteFree input \<noteq> [])
                     (Values_Set ''complete_free'' (FoldersInput.CompleteFree input)) params;
          params = Values_Set ''auto_resume'' (boolToInt (FoldersInput.AutoResume input)) params;
          params = when (FoldersInput.Permissions input \<noteq> [])
                     (Values_Set ''permissions'' (FoldersInput.Permissions input)) params;
          params = when (FoldersInput.WatchedDir input \<noteq> [])
                     (Values_Set ''dirscan_dir'' (FoldersInput.WatchedDir input)) params;
          params = when (0 \<le> sint (FoldersInput.WatchedDirScanSpeed input))
                     (Values_Set ''dirscan_speed'' (Itoa (FoldersInput.WatchedDirScanSpeed input))) params;
          params = when (FoldersInput.ScriptsDir input \<noteq> [])
                     (Values_Set ''script_dir'' (FoldersInput.ScriptsDir input)) params;
          params = when (FoldersInput.EmailTemplatesDir input \<noteq> [])
                     (Values_Set ''email_dir'' (FoldersInput.EmailTemplatesDir input)) params;
          params = when (FoldersInput.PasswordFile input \<noteq> [])
                     (Values_Set ''password_file'' (FoldersInput.PasswordFile input)) params;
          params = when (FoldersInput.NzbBackupDir input \<noteq> [])
                     (Values_Set ''nzb_backup_dir'' (FoldersInput.NzbBackupDir input)) params;
          params = when (FoldersInput.AdminDir input \<noteq> [])
                     (Values_Set ''admin_dir'' (FoldersInput.AdminDir input)) params;
          params = when (FoldersInput.BackupDir input \<noteq> [])
                     (Values_Set ''backup_dir'' (FoldersInput.BackupDir input)) params;
          params = when (FoldersInput.LogDir input \<noteq> [])
                     (Values_Set ''log_dir'' (FoldersInput.LogDir input)) params
      in params)"

definition SetFolders :: "'w Client \<Rightarrow> FoldersInput \<Rightarrow> 'w \<Rightarrow> (error + unit) \<times> 'w" where
  "SetFolders c input w =
     (case doRequest c (SetFolders_params input) (Some (dec_map, [])) w of
        (Inl err, w') \<Rightarrow> (Inl (Wrap ''setting folders config'' err), w')
      | (Inr resp, w') \<Rightarrow> (Inr (), w'))"

text \<open>The assignments that \<^verbatim>\<open>GetFolders\<close> makes from the \<^verbatim>\<open>misc\<close> map.\<close>

definition GetFolders_fields :: "(string \<times> any) list \<Rightarrow> Folders" where
  "GetFolders_fields misc =
     (let folders = zero_Folders;
          folders = if_ok (assert_string (map_of misc ''download_dir''))
                      (\<lambda>v. Folders.DownloadDir_update (\<lambda>_. v)) folders;
          folders = if_ok (assert_string (map_of misc ''download_free''))
                      (\<lambda>v. Folders.DownloadFree_update (\<lambda>_. v)) folders;
          folders = if_ok (assert_string (map_of misc ''complete_dir''))
                      (\<lambda>v. Folders.CompleteDir_update (\<lambda>_. v)) folders;
          folders = if_ok (assert_string (map_of misc ''complete_free''))
                      (\<lambda>v. Folders.CompleteFree_update (\<lambda>_. v)) folders;
          folders = if_ok (assert_float64 (map_of misc ''auto_resume''))
                      (\<lambda>v. Folders.AutoResume_update (\<lambda>_. float64_to_int v)) folders;
          folders = if_ok (assert_string (map_of misc ''permissions''))
                      (\<lambda>v. Folders.Permissions_update (\<lambda>_. v)) folders;
          folders = if_ok (assert_string (map_of misc ''dirscan_dir''))
                      (\<lambda>v. Folders.WatchedDir_update (\<lambda>_. v)) folders;
          folders = if_ok (assert_float64 (map_of misc ''dirscan_speed''))
                      (\<lambda>v. Folders.WatchedDirScanSpeed_update (\<lambda>_. float64_to_int v)) folders;
          folders = if_ok (assert_string (map_of misc ''script_dir''))
                      (\<lambda>v. Folders.ScriptsDir_update (\<lambda>_. v)) folders;
          folders = if_ok (assert_string (map_of misc ''email_dir''))
                      (\<lambda>v. Folders.EmailTemplatesDir_update (\<lambda>_. v)) folders;
          folders = if_ok (assert_string (map_of misc ''password_file''))
                      (\<lambda>v. Folders.PasswordFile_update (\<lambda>_. v)) folders;
          folders = if_ok (assert_string (map_of misc ''nzb_backup_dir''))
                      (\<lambda>v. Folders.NzbBackupDir_update (\<lambda>_. v)) folders;
          folders = if_ok (assert_string (map_of misc ''admin_dir''))
                      (\<lambda>v. Folders.AdminDir_update (\<lambda>_. v)) folders;
          folders = if_ok (assert_string (map_of misc ''backup_dir''))
                      (\<lambda>v. Folders.BackupDir_update (\<lambda>_. v)) folders;
          folders = if_ok (assert_string (map_of misc ''log_dir''))
                      (\<lambda>v. Folders.LogDir_update (\<lambda>_. v)) folders
      in folders)"

definition GetFolders :: "'w Client \<Rightarrow> 'w \<Rightarrow> (error + Folders) \<times> 'w" where
  "GetFolders c w =
     (case GetConfig c w of
        (Inl err, w') \<Rightarrow> (Inl err, w')
      | (Inr config, w') \<Rightarrow> (Inr (GetFolders_fields (Misc config)), w'))"

section \<open>The provider\<close>

text \<open>
  An attribute of the plugin framework (\<^verbatim>\<open>types.String\<close>, \<^verbatim>\<open>types.Int64\<close>,
  \<^verbatim>\<open>types.Bool\<close>) is null, unknown or a known value; the \<^verbatim>\<open>Value...()\<close> accessors
  give the zero value for the first two. \<^verbatim>\<open>req.Plan.Get\<close>, \<^verbatim>\<open>req.State.Get\<close> and
  \<^verbatim>\<open>resp.State.Set\<close> move a whole typed model and belong to the framework. A lifecycle
  method ends in a panic (a nil client), with an error diagnostic and the state it was
  given, or with the state it set.
\<close>

datatype 'a attr = Null | Unknown | Known 'a

definition ValueString :: "string attr \<Rightarrow> string" where
  "ValueString a = (case a of Known s \<Rightarrow> s | _ \<Rightarrow> [])"

definition ValueInt64 :: "go_int attr \<Rightarrow> go_int" where
  "ValueInt64 a = (case a of Known i \<Rightarrow> i | _ \<Rightarrow> 0)"

definition ValueBool :: "bool attr \<Rightarrow> bool" where
  "ValueBool a = (case a of Known b \<Rightarrow> b | _ \<Rightarrow> False)"

datatype 'm response =
    Panic
  | Diagnostics string string error
  | State 'm

datatype 'w Resource =
    ServerResource "'w Client option"
  | CategoryResource "'w Client option"
  | FoldersResource "'w Client option"

definition NewServerResource :: "unit \<Rightarrow> 'w Resource" where
  "NewServerResource _ = ServerResource None"

definition NewCategoryResource :: "unit \<Rightarrow> 'w Resource" where
  "NewCategoryResource _ = CategoryResource None"

definition NewFoldersResource :: "unit \<Rightarrow> 'w Resource" where
  "NewFoldersResource _ = FoldersResource None"

definition Metadata :: "'w Resource \<Rightarrow> string \<Rightarrow> string" where
  "Metadata r ProviderTypeName =
     (case r of
        ServerResource _ \<Rightarrow> ProviderTypeName @ ''_server''
      | CategoryResource _ \<Rightarrow> ProviderTypeName @ ''_category''
      | FoldersResource _ \<Rightarrow> ProviderTypeName @ ''_folders'')"

text \<open>\<^verbatim>\<open>SabnzbdProvider.Resources\<close>: the constructors the provider registers.\<close>

definition Resources :: "(unit \<Rightarrow> 'w Resource) list" where
  "Resources = [NewServerResource, NewCategoryResource]"

subsection \<open>The server resource\<close>

record ServerResourceModel =
  Name :: "string attr"
  Host :: "string attr"
  Port :: "go_int attr"
  Username :: "string attr"
  Password :: "string attr"
  Connections :: "go_int attr"
  SSL :: "bool attr"
  SSLVerify :: "go_int attr"
  SSLCiphers :: "string attr"
  Enable :: "bool attr"
  Optional :: "bool attr"
  Retention :: "go_int attr"
  Timeout :: "go_int attr"
  Priority :: "go_int attr"
  Required :: "bool attr"
  Notes :: "string attr"

definition ServerResource_Read ::
  "'w Client option \<Rightarrow> ServerResourceModel \<Rightarrow> 'w \<Rightarrow> ServerResourceModel response \<times> 'w" where
  "ServerResource_Read client state w =
     (let data = state
      in case client of
           None \<Rightarrow> (Panic, w)
         | Some c \<Rightarrow>
             (case GetServer c (ValueString (ServerResourceModel.Name data)) w of
                (Inl err, w') \<Rightarrow>
                  (Diagnostics ''Client Error'' ''Unable to read server, got error: '' err, w')
              | (Inr server, w') \<Rightarrow>
                  (State (data
                     \<lparr>ServerResourceModel.Host := Known (Server.Host server),
                      ServerResourceModel.Port := Known (Server.Port server),
                      ServerResourceModel.Username := Known (Server.Username server),
                      ServerResourceModel.Connections := Known (Server.Connections server),
                      ServerResourceModel.SSL := Known (Server.SSL server = 1),
                      ServerResourceModel.SSLVerify := Known (Server.SSLVerify server),
                      ServerResourceModel.SSLCiphers := Known (Server.SSLCiphers server),
                      ServerResourceModel.Enable := Known (Server.Enable server = 1),
                      ServerResourceModel.Optional := Known (Server.Optional server = 1),
                      ServerResourceModel.Retention := Known (Server.Retention server),
                      ServerResourceModel.Timeout := Known (Server.Timeout server),
                      ServerResourceModel.Priority := Known (Server.Priority server),
                      ServerResourceModel.Required := Known (Server.Required server = 1),
                      ServerResourceModel.Notes := Known (Server.Notes server)\<rparr>), w')))"

subsection \<open>The folders resource\<close>

record FoldersResourceModel =
  ID :: "string attr"
  DownloadDir :: "string attr"
  DownloadFree :: "string attr"
  CompleteDir :: "string attr"
  CompleteFree :: "string attr"
  AutoResume :: "bool attr"
  Permissions :: "string attr"
  WatchedDir :: "string attr"
  WatchedDirScanSpeed :: "go_int attr"
  ScriptsDir :: "string attr"
  EmailTemplatesDir :: "string attr"
  PasswordFile :: "string attr"
  NzbBackupDir :: "string attr"
  AdminDir :: "string attr"
  BackupDir :: "string attr"
  LogDir :: "string attr"

definition FoldersResource_Create ::
  "'w Client option \<Rightarrow> FoldersResourceModel \<Rightarrow> 'w \<Rightarrow> FoldersResourceModel response \<times> 'w" where
  "FoldersResource_Create client plan w =
     (let data = plan;
          input =
            \<lparr>FoldersInput.DownloadDir = ValueString (FoldersResourceModel.DownloadDir data),
             FoldersInput.DownloadFree = ValueString (FoldersResourceModel.DownloadFree data),
             FoldersInput.CompleteDir = ValueString (FoldersResourceModel.CompleteDir data),
             FoldersInput.CompleteFree = ValueString (FoldersResourceModel.CompleteFree data),
             FoldersInput.AutoResume = ValueBool (FoldersResourceModel.AutoResume data),
             FoldersInput.Permissions = ValueString (FoldersResourceModel.Permissions data),
             FoldersInput.WatchedDir = ValueString (FoldersResourceModel.WatchedDir data),
             FoldersInput.WatchedDirScanSpeed =
               ValueInt64 (FoldersResourceModel.WatchedDirScanSpeed data),
             FoldersInput.ScriptsDir = ValueString (FoldersResourceModel.ScriptsDir data),
             FoldersInput.EmailTemplatesDir =
               ValueString (FoldersResourceModel.EmailTemplatesDir data),
             FoldersInput.PasswordFile = ValueString (FoldersResourceModel.PasswordFile data),
             FoldersInput.NzbBackupDir = ValueString (FoldersResourceModel.NzbBackupDir data),
             FoldersInput.AdminDir = ValueString (FoldersResourceModel.AdminDir data),
             FoldersInput.BackupDir = ValueString (FoldersResourceModel.BackupDir data),
             FoldersInput.LogDir = ValueString (FoldersResourceModel.LogDir data)\<rparr>
      in case client of
           None \<Rightarrow> (Panic, w)
         | Some c \<Rightarrow>
             (case SetFolders c input w of
                (Inl err, w') \<Rightarrow>
                  (Diagnostics ''Client Error''
                     ''Unable to create folders configuration, got error: '' err, w')
              | (Inr _, w') \<Rightarrow> (State (data\<lparr>ID := Known ''folders''\<rparr>), w')))"

definition FoldersResource_Read ::
  "'w Client option \<Rightarrow> FoldersResourceModel \<Rightarrow> 'w \<Rightarrow> FoldersResourceModel response \<times> 'w" where
  "FoldersResource_Read client state w =
     (let data = state
      in case client of
           None \<Rightarrow> (Panic, w)
         | Some c \<Rightarrow>
             (case GetFolders c w of
                (Inl err, w') \<Rightarrow>
                  (Diagnostics ''Client Error''
                     ''Unable to read folders configuration, got error: '' err, w')
              | (Inr folders, w') \<Rightarrow>
                  (State (data
                     \<lparr>ID := Known ''folders'',
                      FoldersResourceModel.DownloadDir := Known (Folders.DownloadDir folders),
                      FoldersResourceModel.DownloadFree := Known (Folders.DownloadFree folders),
                      FoldersResourceModel.CompleteDir := Known (Folders.CompleteDir folders),
                      FoldersResourceModel.CompleteFree := Known (Folders.CompleteFree folders),
                      FoldersResourceModel.AutoResume := Known (Folders.AutoResume folders = 1),
                      FoldersResourceModel.Permissions := Known (Folders.Permissions folders),
                      FoldersResourceModel.WatchedDir := Known (Folders.WatchedDir folders),
                      FoldersResourceModel.WatchedDirScanSpeed :=
                        Known (Folders.WatchedDirScanSpeed folders),
                      FoldersResourceModel.ScriptsDir := Known (Folders.ScriptsDir folders),
                      FoldersResourceModel.EmailTemplatesDir :=
                        Known (Folders.EmailTemplatesDir folders),
                      FoldersResourceModel.PasswordFile := Known (Folders.PasswordFile folders),
                      FoldersResourceModel.NzbBackupDir := Known (Folders.NzbBackupDir folders),
                      FoldersResourceModel.AdminDir := Known (Folders.AdminDir folders),
                      FoldersResourceModel.BackupDir := Known (Folders.BackupDir folders),
                      FoldersResourceModel.LogDir := Known (Folders.LogDir folders)\<rparr>), w')))"

definition FoldersResource_Update ::
  "'w Client option \<Rightarrow> FoldersResourceModel \<Rightarrow> 'w \<Rightarrow> FoldersResourceModel response \<times> 'w" where
  "FoldersResource_Update client plan w =
     (let data = plan;
          input =
            \<lparr>FoldersInput.DownloadDir = ValueString (FoldersResourceModel.DownloadDir data),
             FoldersInput.DownloadFree = ValueString (FoldersResourceModel.DownloadFree data),
             FoldersInput.CompleteDir = ValueString (FoldersResourceModel.CompleteDir data),
             FoldersInput.CompleteFree = ValueString (FoldersResourceModel.CompleteFree data),
             FoldersInput.AutoResume = ValueBool (FoldersResourceModel.AutoResume data),
             FoldersInput.Permissions = ValueString (FoldersResourceModel.Permissions data),
             FoldersInput.WatchedDir = ValueString (FoldersResourceModel.WatchedDir data),
             FoldersInput.WatchedDirScanSpeed =
               ValueInt64 (FoldersResourceModel.WatchedDirScanSpeed data),
             FoldersInput.ScriptsDir = ValueString (FoldersResourceModel.ScriptsDir data),
             FoldersInput.EmailTemplatesDir =
               ValueString (FoldersResourceModel.EmailTemplatesDir data),
             FoldersInput.PasswordFile = ValueString (FoldersResourceModel.PasswordFile data),
             FoldersInput.NzbBackupDir = ValueString (FoldersResourceModel.NzbBackupDir data),
             FoldersInput.AdminDir = ValueString (FoldersResourceModel.AdminDir data),
             FoldersInput.BackupDir = ValueString (FoldersResourceModel.BackupDir data),
             FoldersInput.LogDir = ValueString (FoldersResourceModel.LogDir data)\<rparr>
      in case client of
           None \<Rightarrow> (Panic, w)
         | Some c \<Rightarrow>
             (case SetFolders c input w of
                (Inl err, w') \<Rightarrow>
                  (Diagnostics ''Client Error''
                     ''Unable to update folders configuration, got error: '' err, w')
              | (Inr _, w') \<Rightarrow> (State (data\<lparr>ID := Known ''folders''\<rparr>), w')))"

section \<open>Networks to run the client against\<close>

text \<open>
  \<open>serve b\<close> answers every request with the body \<open>b\<close>; \<open>recording answer\<close> answers
  by the URL alone (\<open>always b\<close>: with the body \<open>b\<close>) and keeps the list of the URLs it
  was asked for.
\<close>

definition serve :: "body \<Rightarrow> string \<Rightarrow> 'w \<Rightarrow> http_outcome \<times> 'w" where
  "serve b url w = (Response b, w)"

definition always :: "body \<Rightarrow> string \<Rightarrow> http_outcome" where
  "always b url = Response b"

definition recording :: "(string \<Rightarrow> http_outcome) \<Rightarrow> string \<Rightarrow> string list \<Rightarrow> http_outcome \<times> string list" where
  "recording answer url urls = (answer url, urls @ [url])"

section \<open>A remote that stores what it is sent\<close>

text \<open>
  The SABnzbd instance behind the API is not part of the repository. The round trip of
  a category is stated against a remote that stores exactly the field values it is sent
  under the name it is sent. This section gives such a remote, down to the wire: it
  parses the query string of the request URL, keeps the categories byte for byte, and
  renders them as the JSON that \<^verbatim>\<open>GetConfig\<close> decodes.
\<close>

definition hexval :: "char \<Rightarrow> nat option" where
  "hexval c =
     map_of (zip ''0123456789ABCDEFabcdef''
       [0, 1, 2, 3, 4, 5, 6, 7, 8, 9, 10, 11, 12, 13, 14, 15, 10, 11, 12, 13, 14, 15]) c"

fun QueryUnescape :: "string \<Rightarrow> string option" where
  "QueryUnescape [] = Some []"
| "QueryUnescape (c # cs) =
     (if c = CHR ''%'' then
        (case cs of
           a # b # rest \<Rightarrow>
             (case (hexval a, hexval b) of
                (Some x, Some y) \<Rightarrow> map_option ((#) (char_of (16 * x + y))) (QueryUnescape rest)
              | _ \<Rightarrow> None)
         | _ \<Rightarrow> None)
      else if c = CHR ''+'' then map_option ((#) CHR '' '') (QueryUnescape cs)
      else map_option ((#) c) (QueryUnescape cs))"

fun Split :: "string \<Rightarrow> char \<Rightarrow> string list" where
  "Split [] sep = [[]]"
| "Split (c # cs) sep =
     (if c = sep then [] # Split cs sep
      else (case Split cs sep of x # xs \<Rightarrow> (c # x) # xs | [] \<Rightarrow> [[c]]))"

definition Cut :: "string \<Rightarrow> char \<Rightarrow> string \<times> string" where
  "Cut s sep = (takeWhile (\<lambda>c. c \<noteq> sep) s, drop 1 (dropWhile (\<lambda>c. c \<noteq> sep) s))"

definition ParseQuery :: "string \<Rightarrow> Values option" where
  "ParseQuery query =
     those (map (\<lambda>p. case Cut p CHR ''='' of
                        (k, v) \<Rightarrow>
                          (case (QueryUnescape k, QueryUnescape v) of
                             (Some k', Some v') \<Rightarrow> Some (k', v')
                           | _ \<Rightarrow> None))
              (filter (\<lambda>p. p \<noteq> []) (Split query CHR ''&'')))"

definition digit_val :: "char \<Rightarrow> nat option" where
  "digit_val c = map_of (zip ''0123456789'' [0, 1, 2, 3, 4, 5, 6, 7, 8, 9]) c"

fun parse_nat :: "nat \<Rightarrow> string \<Rightarrow> nat option" where
  "parse_nat acc [] = Some acc"
| "parse_nat acc (c # cs) =
     (case digit_val c of None \<Rightarrow> None | Some d \<Rightarrow> parse_nat (10 * acc + d) cs)"

text \<open>A decimal integer that fits 64 bits, with an optional minus sign.\<close>

definition ParseInt :: "string \<Rightarrow> go_int option" where
  "ParseInt s =
     (case s of
        [] \<Rightarrow> None
      | c # cs \<Rightarrow>
          if c = CHR ''-'' then
            (if cs = [] then None
             else (case parse_nat 0 cs of
                     None \<Rightarrow> None
                   | Some n \<Rightarrow> if n \<le> 2 ^ 63 then Some (word_of_int (- int n)) else None))
          else (case parse_nat 0 s of
                  None \<Rightarrow> None
                | Some n \<Rightarrow> if n < 2 ^ 63 then Some (word_of_nat n) else None))"

definition category_of_query :: "(string \<Rightarrow> string option) \<Rightarrow> Category option" where
  "category_of_query q =
     Option.bind (q ''name'') (\<lambda>name.
     Option.bind (q ''dir'') (\<lambda>dir.
     Option.bind (q ''script'') (\<lambda>script.
     Option.bind (Option.bind (q ''priority'') ParseInt) (\<lambda>priority.
     Option.bind (q ''pp'') (\<lambda>pp.
     Option.bind (Option.bind (q ''order'') ParseInt) (\<lambda>order.
       Some \<lparr>Category.Name = name, Dir = dir, Category.Script = script,
             Category.Priority = priority, Category.PP = pp, Category.Order = order\<rparr>))))))"

fun upsert :: "Category \<Rightarrow> Category list \<Rightarrow> Category list" where
  "upsert cat [] = [cat]"
| "upsert cat (x # xs) =
     (if Category.Name x = Category.Name cat then cat # xs else x # upsert cat xs)"

text \<open>
  An integer token: both readings succeed. The integer fields of the client never
  consult the float reading.
\<close>

definition JInt :: "go_int \<Rightarrow> json" where
  "JInt i = JNumber (Some i) (Some (of_int (sint i)))"

definition json_of_Category :: "Category \<Rightarrow> json" where
  "json_of_Category cat =
     JObject
       [(''name'', JString (Category.Name cat)),
        (''dir'', JString (Category.Dir cat)),
        (''script'', JString (Category.Script cat)),
        (''priority'', JInt (Category.Priority cat)),
        (''pp'', JString (Category.PP cat)),
        (''order'', JInt (Category.Order cat))]"

text \<open>A stored category as the client reads it from a reply.\<close>

definition Category_received :: "Category \<Rightarrow> Category" where
  "Category_received cat =
     cat\<lparr>Category.Name := unquote (Category.Name cat),
         Category.Dir := unquote (Category.Dir cat),
         Category.Script := unquote (Category.Script cat),
         Category.PP := unquote (Category.PP cat)\<rparr>"

definition api_error :: "string \<Rightarrow> json" where
  "api_error msg = JObject [(''status'', JBool False), (''error'', JString msg)]"

text \<open>
  The remote writes the bytes it holds into the strings of its reply; the client reads
  the reply through the decoder's \<^verbatim>\<open>unquote\<close>.
\<close>

definition reply :: "json \<Rightarrow> http_outcome" where
  "reply j = Response (JSON (received j))"

text \<open>
  The remote reached at \<open>origin\<close>: the state of the world is the list of categories it
  holds.
\<close>

definition sabnzbd :: "string \<Rightarrow> string \<Rightarrow> Category list \<Rightarrow> http_outcome \<times> Category list" where
  "sabnzbd origin url cats =
     (let prefix = origin @ ''/api?''
      in if take (length prefix) url \<noteq> prefix then (DoFailed (LibError ''connection refused''), cats)
         else (case ParseQuery (drop (length prefix) url) of
                 None \<Rightarrow> (reply (api_error ''bad request''), cats)
               | Some q \<Rightarrow>
                   if map_of q ''mode'' = Some ''get_config'' then
                     (reply (JObject
                        [(''config'', JObject
                           [(''categories'', JArray (map json_of_Category cats))])]), cats)
                   else if map_of q ''mode'' = Some ''set_config'' \<and>
                           map_of q ''section'' = Some ''categories'' then
                     (case category_of_query (map_of q) of
                        None \<Rightarrow> (reply (api_error ''bad category''), cats)
                      | Some cat \<Rightarrow> (reply (JObject [(''status'', JBool True)]), upsert cat cats))
                   else (reply (api_error ''not implemented''), cats)))"

section \<open>Example inputs\<close>

definition example_config_body :: body where
  "example_config_body = JSON (JObject [(''config'', JObject
     [(''misc'', JObject
        [(''download_dir'', JString ''/data/incomplete''),
         (''auto_resume'', JNumber (Some 1) (Some 1)),
         (''dirscan_speed'', JString ''fast''),
         (''Permissions'', JString ''755'')]),
      (''servers'', JArray
        [JObject
           [(''name'', JString ''news1''),
            (''host'', JString ''n.example.com''),
            (''port'', JNumber (Some 563) (Some 563)),
            (''ssl'', JNumber (Some 1) (Some 1)),
            (''password'', JString [])]]),
      (''categories'', JArray
        [JObject
           [(''name'', JString ''tv''),
            (''dir'', JString ''TV Shows''),
            (''priority'', JNumber (Some 1) (Some 1)),
            (''pp'', JString ''3'')]])])])"

definition example_config :: Config where
  "example_config =
     \<lparr>Misc =
        [(''download_dir'', AnyString ''/data/incomplete''),
         (''auto_resume'', AnyFloat64 1),
         (''dirscan_speed'', AnyString ''fast''),
         (''Permissions'', AnyString ''755'')],
      Servers =
        [zero_Server\<lparr>Server.Name := ''news1'', Server.Host := ''n.example.com'',
           Server.Port := 563, Server.SSL := 1\<rparr>],
      Categories =
        [zero_Category\<lparr>Category.Name := ''tv'', Category.Dir := ''TV Shows'',
           Category.Priority := 1, Category.PP := ''3''\<rparr>],
      RSS = [],
      Sorters = []\<rparr>"

definition example_client :: "body \<Rightarrow> unit Client" where
  "example_client b = NewClient ''http://localhost:8080/'' ''0123456789abcdef'' (serve b)"

definition example_server_state :: ServerResourceModel where
  "example_server_state =
     \<lparr>ServerResourceModel.Name = Known ''news1'',
      ServerResourceModel.Host = Known ''old.example.com'',
      ServerResourceModel.Port = Known 119,
      ServerResourceModel.Username = Known ''myuser'',
      ServerResourceModel.Password = Known ''secret'',
      ServerResourceModel.Connections = Known 8,
      ServerResourceModel.SSL = Known False,
      ServerResourceModel.SSLVerify = Known 2,
      ServerResourceModel.SSLCiphers = Known [],
      ServerResourceModel.Enable = Known True,
      ServerResourceModel.Optional = Known False,
      ServerResourceModel.Retention = Known 0,
      ServerResourceModel.Timeout = Known 60,
      ServerResourceModel.Priority = Known 0,
      ServerResourceModel.Required = Known False,
      ServerResourceModel.Notes = Known ''primary''\<rparr>"

definition example_folders_plan :: FoldersResourceModel where
  "example_folders_plan =
     \<lparr>ID = Unknown,
      FoldersResourceModel.DownloadDir = Known ''/data/incomplete'',
      FoldersResourceModel.DownloadFree = Known ''10G'',
      FoldersResourceModel.CompleteDir = Known ''/data/complete'',
      FoldersResourceModel.CompleteFree = Known [],
      FoldersResourceModel.AutoResume = Known True,
      FoldersResourceModel.Permissions = Known ''755'',
      FoldersResourceModel.WatchedDir = Known [],
      FoldersResourceModel.WatchedDirScanSpeed = Known 5,
      FoldersResourceModel.ScriptsDir = Known [],
      FoldersResourceModel.EmailTemplatesDir = Known [],
      FoldersResourceModel.PasswordFile = Known [],
      FoldersResourceModel.NzbBackupDir = Known [],
      FoldersResourceModel.AdminDir = Known ''admin'',
      FoldersResourceModel.BackupDir = Known ''backup'',
      FoldersResourceModel.LogDir = Known ''logs''\<rparr>"

section \<open>Parameters and requests\<close>

lemma map_of_Values_Set:
  "map_of (Values_Set k v ps) k' = (if k' = k then Some v else map_of ps k')"
  by (simp add: Values_Set_def update_conv')

lemma map_of_when_Set:
  "map_of (when b (Values_Set k v) ps) k' = (if b \<and> k' = k then Some v else map_of ps k')"
  by (simp add: when_def map_of_Values_Set)

lemma doRequest_recording:
  "snd (doRequest \<lparr>baseURL = b, apiKey = k, httpClient = recording answer\<rparr> params result urls) =
     urls @ [b @ ''/api?'' @ Encode (Values_Set ''output'' ''json'' (Values_Set ''apikey'' k params))]"
  by (simp add: doRequest_def Let_def recording_def
      split: http_outcome.splits sum.splits option.splits prod.splits)

section \<open>The registered resources\<close>

text \<open>
  Claim C1 asks that the list of resource constructors which the provider registers
  holds a constructor for each of the kinds server, category and folders. The list that
  \<^verbatim>\<open>Resources\<close> returns constructs the server and the category resource and nothing
  else: the constructor of the folders resource, though defined, is not in it.
\<close>

theorem Resources_omits_folders:
  "map (\<lambda>new. Metadata (new ()) ''sabnzbd'') (Resources :: (unit \<Rightarrow> 'w Resource) list) =
     [''sabnzbd_server'', ''sabnzbd_category''] \<and>
   (NewFoldersResource :: unit \<Rightarrow> 'w Resource) \<notin> set Resources"
proof
  show "map (\<lambda>new. Metadata (new ()) ''sabnzbd'') (Resources :: (unit \<Rightarrow> 'w Resource) list) =
     [''sabnzbd_server'', ''sabnzbd_category'']"
    by (simp add: Resources_def Metadata_def NewServerResource_def NewCategoryResource_def)
  show "(NewFoldersResource :: unit \<Rightarrow> 'w Resource) \<notin> set Resources"
  proof
    assume "(NewFoldersResource :: unit \<Rightarrow> 'w Resource) \<in> set Resources"
    then have "(NewFoldersResource () :: 'w Resource) \<in> {NewServerResource (), NewCategoryResource ()}"
      by (auto simp: Resources_def)
    then show False
      by (simp add: NewFoldersResource_def NewServerResource_def NewCategoryResource_def)
  qed
qed

section \<open>Entities absent from the snapshot\<close>

lemmas decode_defs =
  Unmarshal_def dec_GetConfigResponse_def dec_Config_def dec_Server_def dec_Category_def
  dec_RSSFeed_def dec_Sorter_def dec_errorResp_def dec_struct_def dec_slice_def dec_map_def
  dec_string_def dec_int_def field_for_def field_def upper_def
  zero_GetConfigResponse_def zero_Config_def zero_Server_def zero_Category_def

lemma GetConfig_example:
  "GetConfig (example_client example_config_body) () = (Inr example_config, ())"
  by (simp add: GetConfig_def doRequest_def Let_def serve_def example_client_def NewClient_def
      example_config_body_def example_config_def decode_defs)

text \<open>
  Claim C5: whenever the configuration snapshot is fetched and the name is not the name
  of any server in it, \<^verbatim>\<open>GetServer\<close> returns the not-found error that names the missing
  server, and likewise \<^verbatim>\<open>GetCategory\<close> for categories; neither returns a zero-valued
  entity.
\<close>

theorem GetServer_GetCategory_not_found:
  assumes "GetConfig c w = (Inr config, w')"
  shows "(name \<notin> Server.Name ` set (Servers config) \<longrightarrow>
            GetServer c name w = (Inl (NotFound ''server'' name), w')) \<and>
         (name \<notin> Category.Name ` set (Categories config) \<longrightarrow>
            GetCategory c name w = (Inl (NotFound ''category'' name), w'))"
proof (intro conjI impI)
  assume "name \<notin> Server.Name ` set (Servers config)"
  then have "find (\<lambda>server. Server.Name server = name) (Servers config) = None"
    by (auto simp: find_None_iff)
  with assms show "GetServer c name w = (Inl (NotFound ''server'' name), w')"
    by (simp add: GetServer_def)
next
  assume "name \<notin> Category.Name ` set (Categories config)"
  then have "find (\<lambda>cat. Category.Name cat = name) (Categories config) = None"
    by (auto simp: find_None_iff)
  with assms show "GetCategory c name w = (Inl (NotFound ''category'' name), w')"
    by (simp add: GetCategory_def)
qed

theorem GetServer_GetCategory_not_found_witness:
  "GetConfig (example_client example_config_body) () = (Inr example_config, ()) \<and>
   ''news2'' \<notin> Server.Name ` set (Servers example_config) \<and>
   ''movies'' \<notin> Category.Name ` set (Categories example_config) \<and>
   GetServer (example_client example_config_body) ''news2'' () =
     (Inl (NotFound ''server'' ''news2''), ()) \<and>
   GetCategory (example_client example_config_body) ''movies'' () =
     (Inl (NotFound ''category'' ''movies''), ())"
proof -
  have s: "''news2'' \<notin> Server.Name ` set (Servers example_config)"
    by (simp add: example_config_def)
  have c: "''movies'' \<notin> Category.Name ` set (Categories example_config)"
    by (simp add: example_config_def)
  show ?thesis
    using GetServer_GetCategory_not_found [OF GetConfig_example, of "''news2''"]
      GetServer_GetCategory_not_found [OF GetConfig_example, of "''movies''"]
      GetConfig_example s c
    by simp
qed

section \<open>What the write operations send\<close>

lemma snd_case_result:
  "snd (case p of (Inl e, w') \<Rightarrow> (f e, w') | (Inr r, w') \<Rightarrow> (g r, w')) = snd p"
  by (cases p; cases "fst p") auto

lemma SetFolders_params_lookup:
  shows "map_of (SetFolders_params input) ''download_dir'' =
           (if FoldersInput.DownloadDir input \<noteq> [] then Some (FoldersInput.DownloadDir input) else None)"
    and "map_of (SetFolders_params input) ''download_free'' =
           (if FoldersInput.DownloadFree input \<noteq> [] then Some (FoldersInput.DownloadFree input) else None)"
    and "map_of (SetFolders_params input) ''complete_dir'' =
           (if FoldersInput.CompleteDir input \<noteq> [] then Some (FoldersInput.CompleteDir input) else None)"
    and "map_of (SetFolders_params input) ''complete_free'' =
           (if FoldersInput.CompleteFree input \<noteq> [] then Some (FoldersInput.CompleteFree input) else None)"
    and "map_of (SetFolders_params input) ''auto_resume'' =
           Some (boolToInt (FoldersInput.AutoResume input))"
    and "map_of (SetFolders_params input) ''permissions'' =
           (if FoldersInput.Permissions input \<noteq> [] then Some (FoldersInput.Permissions input) else None)"
    and "map_of (SetFolders_params input) ''dirscan_dir'' =
           (if FoldersInput.WatchedDir input \<noteq> [] then Some (FoldersInput.WatchedDir input) else None)"
    and "map_of (SetFolders_params input) ''dirscan_speed'' =
           (if 0 \<le> sint (FoldersInput.WatchedDirScanSpeed input)
            then Some (Itoa (FoldersInput.WatchedDirScanSpeed input)) else None)"
    and "map_of (SetFolders_params input) ''script_dir'' =
           (if FoldersInput.ScriptsDir input \<noteq> [] then Some (FoldersInput.ScriptsDir input) else None)"
    and "map_of (SetFolders_params input) ''email_dir'' =
           (if FoldersInput.EmailTemplatesDir input \<noteq> []
            then Some (FoldersInput.EmailTemplatesDir input) else None)"
    and "map_of (SetFolders_params input) ''password_file'' =
           (if FoldersInput.PasswordFile input \<noteq> [] then Some (FoldersInput.PasswordFile input) else None)"
    and "map_of (SetFolders_params input) ''nzb_backup_dir'' =
           (if FoldersInput.NzbBackupDir input \<noteq> [] then Some (FoldersInput.NzbBackupDir input) else None)"
    and "map_of (SetFolders_params input) ''admin_dir'' =
           (if FoldersInput.AdminDir input \<noteq> [] then Some (FoldersInput.AdminDir input) else None)"
    and "map_of (SetFolders_params input) ''backup_dir'' =
           (if FoldersInput.BackupDir input \<noteq> [] then Some (FoldersInput.BackupDir input) else None)"
    and "map_of (SetFolders_params input) ''log_dir'' =
           (if FoldersInput.LogDir input \<noteq> [] then Some (FoldersInput.LogDir input) else None)"
  by (simp_all add: SetFolders_params_def Let_def map_of_Values_Set map_of_when_Set)

text \<open>
  Claim C6: in the parameters that \<^verbatim>\<open>SetFolders\<close> sends, the key of a string field is
  present exactly when the field is not empty, \<^verbatim>\<open>dirscan_speed\<close> exactly when
  \<^verbatim>\<open>WatchedDirScanSpeed\<close> is not negative, and \<^verbatim>\<open>auto_resume\<close> always, as
  \<^verbatim>\<open>"1"\<close> or \<^verbatim>\<open>"0"\<close>, whatever the other fields hold. The first part of the statement
  ties these parameters to the request that \<^verbatim>\<open>SetFolders\<close> issues.
\<close>

theorem SetFolders_params_keys:
  "snd (SetFolders \<lparr>baseURL = b, apiKey = k, httpClient = recording answer\<rparr> input urls) =
     urls @ [b @ ''/api?'' @
       Encode (Values_Set ''output'' ''json'' (Values_Set ''apikey'' k (SetFolders_params input)))] \<and>
   (map_of (SetFolders_params input) ''download_dir'' \<noteq> None \<longleftrightarrow> FoldersInput.DownloadDir input \<noteq> []) \<and>
   (map_of (SetFolders_params input) ''download_free'' \<noteq> None \<longleftrightarrow> FoldersInput.DownloadFree input \<noteq> []) \<and>
   (map_of (SetFolders_params input) ''complete_dir'' \<noteq> None \<longleftrightarrow> FoldersInput.CompleteDir input \<noteq> []) \<and>
   (map_of (SetFolders_params input) ''complete_free'' \<noteq> None \<longleftrightarrow> FoldersInput.CompleteFree input \<noteq> []) \<and>
   (map_of (SetFolders_params input) ''permissions'' \<noteq> None \<longleftrightarrow> FoldersInput.Permissions input \<noteq> []) \<and>
   (map_of (SetFolders_params input) ''dirscan_dir'' \<noteq> None \<longleftrightarrow> FoldersInput.WatchedDir input \<noteq> []) \<and>
   (map_of (SetFolders_params input) ''script_dir'' \<noteq> None \<longleftrightarrow> FoldersInput.ScriptsDir input \<noteq> []) \<and>
   (map_of (SetFolders_params input) ''email_dir'' \<noteq> None \<longleftrightarrow> FoldersInput.EmailTemplatesDir input \<noteq> []) \<and>
   (map_of (SetFolders_params input) ''password_file'' \<noteq> None \<longleftrightarrow> FoldersInput.PasswordFile input \<noteq> []) \<and>
   (map_of (SetFolders_params input) ''nzb_backup_dir'' \<noteq> None \<longleftrightarrow> FoldersInput.NzbBackupDir input \<noteq> []) \<and>
   (map_of (SetFolders_params input) ''admin_dir'' \<noteq> None \<longleftrightarrow> FoldersInput.AdminDir input \<noteq> []) \<and>
   (map_of (SetFolders_params input) ''backup_dir'' \<noteq> None \<longleftrightarrow> FoldersInput.BackupDir input \<noteq> []) \<and>
   (map_of (SetFolders_params input) ''log_dir'' \<noteq> None \<longleftrightarrow> FoldersInput.LogDir input \<noteq> []) \<and>
   (map_of (SetFolders_params input) ''dirscan_speed'' \<noteq> None \<longleftrightarrow>
      0 \<le> sint (FoldersInput.WatchedDirScanSpeed input)) \<and>
   map_of (SetFolders_params input) ''auto_resume'' =
     Some (if FoldersInput.AutoResume input then ''1'' else ''0'')"
proof (intro conjI)
  show "snd (SetFolders \<lparr>baseURL = b, apiKey = k, httpClient = recording answer\<rparr> input urls) =
     urls @ [b @ ''/api?'' @
       Encode (Values_Set ''output'' ''json'' (Values_Set ''apikey'' k (SetFolders_params input)))]"
    by (simp add: SetFolders_def snd_case_result doRequest_recording)
qed (simp_all add: SetFolders_params_lookup boolToInt_def)

text \<open>
  Claim C7: \<^verbatim>\<open>SetServer\<close> sends every field of its input whatever its value, under the
  mode \<^verbatim>\<open>set_config\<close>, the section \<^verbatim>\<open>servers\<close> and the input's name, and writes the
  four booleans with \<^verbatim>\<open>boolToInt\<close>, which gives \<^verbatim>\<open>"1"\<close> for true and \<^verbatim>\<open>"0"\<close> for
  false.
\<close>

theorem SetServer_params_all_fields:
  "snd (SetServer \<lparr>baseURL = b, apiKey = k, httpClient = recording answer\<rparr> input urls) =
     urls @ [b @ ''/api?'' @
       Encode (Values_Set ''output'' ''json'' (Values_Set ''apikey'' k (SetServer_params input)))] \<and>
   SetServer_params input =
     [(''mode'', ''set_config''),
      (''section'', ''servers''),
      (''name'', ServerInput.Name input),
      (''host'', ServerInput.Host input),
      (''port'', Itoa (ServerInput.Port input)),
      (''username'', ServerInput.Username input),
      (''password'', ServerInput.Password input),
      (''connections'', Itoa (ServerInput.Connections input)),
      (''ssl'', boolToInt (ServerInput.SSL input)),
      (''ssl_verify'', Itoa (ServerInput.SSLVerify input)),
      (''ssl_ciphers'', ServerInput.SSLCiphers input),
      (''enable'', boolToInt (ServerInput.Enable input)),
      (''optional'', boolToInt (ServerInput.Optional input)),
      (''retention'', Itoa (ServerInput.Retention input)),
      (''timeout'', Itoa (ServerInput.Timeout input)),
      (''priority'', Itoa (ServerInput.Priority input)),
      (''required'', boolToInt (ServerInput.Required input)),
      (''notes'', ServerInput.Notes input)] \<and>
   boolToInt True = ''1'' \<and> boolToInt False = ''0''"
proof (intro conjI)
  show "snd (SetServer \<lparr>baseURL = b, apiKey = k, httpClient = recording answer\<rparr> input urls) =
     urls @ [b @ ''/api?'' @
       Encode (Values_Set ''output'' ''json'' (Values_Set ''apikey'' k (SetServer_params input)))]"
    by (simp add: SetServer_def snd_case_result doRequest_recording)
qed (simp_all add: SetServer_params_def Let_def Values_Set_def boolToInt_def)

section \<open>Error precedence in the transport\<close>

lemma field_for_error:
  "field_for [(''error'', f)] k = (if foldName k = ''ERROR'' then Some f else None)"
  by (auto simp: field_for_def upper_def)

lemma dec_members_error_skip:
  "filter (\<lambda>kv. foldName (fst kv) = ''ERROR'') kvs = [] \<Longrightarrow>
   dec_members [(''error'', f)] kvs a = Inr a"
  by (induction kvs arbitrary: a) (auto simp: field_for_error split: if_splits)

lemma dec_members_error_one:
  "filter (\<lambda>kv. foldName (fst kv) = ''ERROR'') kvs = [(''error'', JString msg)] \<Longrightarrow>
   dec_members [(''error'', field Error Error_update dec_string)] kvs a = Inr (a\<lparr>Error := msg\<rparr>)"
proof (induction kvs arbitrary: a)
  case Nil
  then show ?case by simp
next
  case (Cons kv kvs)
  obtain k v where kv: "kv = (k, v)" by (cases kv)
  show ?case
  proof (cases "foldName k = ''ERROR''")
    case True
    with Cons.prems kv have "k = ''error''" "v = JString msg"
      and "filter (\<lambda>kv. foldName (fst kv) = ''ERROR'') kvs = []" by auto
    then show ?thesis
      using kv
      by (simp add: field_for_error field_def dec_string_def dec_members_error_skip upper_def)
  next
    case False
    with Cons.prems kv
    have "filter (\<lambda>kv. foldName (fst kv) = ''ERROR'') kvs = [(''error'', JString msg)]"
      by simp
    then show ?thesis using False kv Cons.IH by (simp add: field_for_error)
  qed
qed

text \<open>
  Claim C2 says that every body which parses as JSON with a non-empty top-level
  \<^verbatim>\<open>error\<close> string makes \<^verbatim>\<open>doRequest\<close> return the API error with that message. The
  check in \<^verbatim>\<open>doRequest\<close> is guarded by the success of decoding the body into the error
  shape, and encoding/json also matches a key to the field when only the letter case
  differs: in the body below the member \<^verbatim>\<open>"Error": 7\<close> is a type mismatch for the same
  field, the decoding fails, the check is skipped and the body is decoded as the result.
\<close>

theorem doRequest_error_field_counterexample:
  "map_of [(''error'', JString ''boom''), (''Error'', JNumber (Some 7) (Some 7))] ''error'' =
     Some (JString ''boom'') \<and>
   ''boom'' \<noteq> [] \<and>
   doRequest
     \<lparr>baseURL = ''http://localhost:8080'', apiKey = ''0123456789abcdef'',
      httpClient =
        serve (JSON (JObject [(''error'', JString ''boom''), (''Error'', JNumber (Some 7) (Some 7))]))\<rparr>
     [(''mode'', ''set_config'')] (Some (dec_map, [])) () =
   (Inr (Some [(''error'', AnyString ''boom''), (''Error'', AnyFloat64 7)]), ())"
  by (simp add: doRequest_def Let_def serve_def Unmarshal_def dec_errorResp_def dec_struct_def
      field_for_def field_def dec_string_def dec_map_def upper_def)

text \<open>
  Claim C2 as amended: when the body is a JSON object in which exactly one top-level
  member has a key equal to \<^verbatim>\<open>error\<close> up to letter case, and that member is
  \<^verbatim>\<open>error\<close> itself with a non-empty string, \<^verbatim>\<open>doRequest\<close> returns the API error with
  exactly that string as its message, whatever the result shape is: the body is never
  decoded into it, even where that decoding would succeed.
\<close>

theorem doRequest_error_precedence:
  assumes "httpClient c (baseURL c @ ''/api?'' @
             Encode (Values_Set ''output'' ''json'' (Values_Set ''apikey'' (apiKey c) params))) w =
           (Response (JSON (JObject kvs)), w')"
    and "filter (\<lambda>kv. foldName (fst kv) = foldName ''error'') kvs = [(''error'', JString msg)]"
    and "msg \<noteq> []"
  shows "doRequest c params result w = (Inl (APIError msg), w')"
proof -
  from assms(2)
  have "dec_members [(''error'', field Error Error_update dec_string)] kvs \<lparr>Error = []\<rparr> =
          Inr \<lparr>Error = msg\<rparr>"
    using dec_members_error_one [of kvs msg "\<lparr>Error = []\<rparr>"] by (simp add: upper_def)
  then have "Unmarshal (JSON (JObject kvs)) dec_errorResp \<lparr>Error = []\<rparr> = Inr \<lparr>Error = msg\<rparr>"
    by (simp add: Unmarshal_def dec_errorResp_def dec_struct_def)
  with assms(1,3) show ?thesis
    by (simp add: doRequest_def Let_def)
qed

theorem doRequest_error_precedence_witness:
  "filter (\<lambda>kv. foldName (fst kv) = foldName ''error'')
     [(''status'', JBool False), (''error'', JString ''API Key Incorrect'')] =
     [(''error'', JString ''API Key Incorrect'')] \<and>
   Unmarshal (JSON (JObject [(''status'', JBool False), (''error'', JString ''API Key Incorrect'')]))
     dec_map [] =
     Inr [(''status'', AnyBool False), (''error'', AnyString ''API Key Incorrect'')] \<and>
   doRequest
     (example_client
        (JSON (JObject [(''status'', JBool False), (''error'', JString ''API Key Incorrect'')])))
     [(''mode'', ''set_config'')] (Some (dec_map, [])) () =
   (Inl (APIError ''API Key Incorrect''), ())"
proof -
  have f: "filter (\<lambda>kv. foldName (fst kv) = foldName ''error'')
     [(''status'', JBool False), (''error'', JString ''API Key Incorrect'')] =
     [(''error'', JString ''API Key Incorrect'')]"
    by (simp add: upper_def)
  have d: "Unmarshal (JSON (JObject [(''status'', JBool False), (''error'', JString ''API Key Incorrect'')]))
     dec_map [] =
     Inr [(''status'', AnyBool False), (''error'', AnyString ''API Key Incorrect'')]"
    by (simp add: Unmarshal_def dec_map_def)
  have n: "''API Key Incorrect'' \<noteq> []" by simp
  show ?thesis
    using f d doRequest_error_precedence
      [of "example_client
             (JSON (JObject [(''status'', JBool False), (''error'', JString ''API Key Incorrect'')]))"
          "[(''mode'', ''set_config'')]" "()" _ "()", OF _ f n]
    by (simp add: example_client_def NewClient_def serve_def)
qed

section \<open>Reading resources back\<close>

lemma GetServer_example:
  "GetServer (example_client example_config_body) ''news1'' () =
     (Inr (zero_Server\<lparr>Server.Name := ''news1'', Server.Host := ''n.example.com'',
             Server.Port := 563, Server.SSL := 1\<rparr>), ())"
  by (simp add: GetServer_def GetConfig_example example_config_def)

text \<open>
  Claim C4: when the state of a server resource holds a non-empty password and \<^verbatim>\<open>Read\<close>
  completes with a state, that state has the password of the state before, whatever
  password the remote returned, and its host, port, username, connections, ssl,
  ssl_verify, ssl_ciphers, enable, optional, retention, timeout, priority, required and
  notes are the values of the server the client read (the four booleans as "equals 1").
\<close>

theorem ServerResource_Read_keeps_password:
  assumes "ServerResource_Read client state w = (State state', w')"
    and "ValueString (ServerResourceModel.Password state) \<noteq> []"
  shows "\<exists>c server.
           client = Some c \<and>
           GetServer c (ValueString (ServerResourceModel.Name state)) w = (Inr server, w') \<and>
           ServerResourceModel.Password state' = ServerResourceModel.Password state \<and>
           ServerResourceModel.Host state' = Known (Server.Host server) \<and>
           ServerResourceModel.Port state' = Known (Server.Port server) \<and>
           ServerResourceModel.Username state' = Known (Server.Username server) \<and>
           ServerResourceModel.Connections state' = Known (Server.Connections server) \<and>
           ServerResourceModel.SSL state' = Known (Server.SSL server = 1) \<and>
           ServerResourceModel.SSLVerify state' = Known (Server.SSLVerify server) \<and>
           ServerResourceModel.SSLCiphers state' = Known (Server.SSLCiphers server) \<and>
           ServerResourceModel.Enable state' = Known (Server.Enable server = 1) \<and>
           ServerResourceModel.Optional state' = Known (Server.Optional server = 1) \<and>
           ServerResourceModel.Retention state' = Known (Server.Retention server) \<and>
           ServerResourceModel.Timeout state' = Known (Server.Timeout server) \<and>
           ServerResourceModel.Priority state' = Known (Server.Priority server) \<and>
           ServerResourceModel.Required state' = Known (Server.Required server = 1) \<and>
           ServerResourceModel.Notes state' = Known (Server.Notes server)"
  using assms(1)
  by (auto simp: ServerResource_Read_def Let_def split: option.splits prod.splits sum.splits)

theorem ServerResource_Read_keeps_password_witness:
  "ValueString (ServerResourceModel.Password example_server_state) \<noteq> [] \<and>
   ServerResource_Read (Some (example_client example_config_body)) example_server_state () =
     (State (example_server_state
        \<lparr>ServerResourceModel.Host := Known ''n.example.com'',
         ServerResourceModel.Port := Known 563,
         ServerResourceModel.Username := Known [],
         ServerResourceModel.Connections := Known 0,
         ServerResourceModel.SSL := Known True,
         ServerResourceModel.SSLVerify := Known 0,
         ServerResourceModel.Enable := Known False,
         ServerResourceModel.Timeout := Known 0,
         ServerResourceModel.Notes := Known []\<rparr>), ()) \<and>
   ServerResourceModel.Password (example_server_state
        \<lparr>ServerResourceModel.Host := Known ''n.example.com'',
         ServerResourceModel.Port := Known 563,
         ServerResourceModel.Username := Known [],
         ServerResourceModel.Connections := Known 0,
         ServerResourceModel.SSL := Known True,
         ServerResourceModel.SSLVerify := Known 0,
         ServerResourceModel.Enable := Known False,
         ServerResourceModel.Timeout := Known 0,
         ServerResourceModel.Notes := Known []\<rparr>) = Known ''secret''"
proof -
  have p: "ValueString (ServerResourceModel.Password example_server_state) \<noteq> []"
    by (simp add: example_server_state_def ValueString_def)
  have r: "ServerResource_Read (Some (example_client example_config_body)) example_server_state () =
     (State (example_server_state
        \<lparr>ServerResourceModel.Host := Known ''n.example.com'',
         ServerResourceModel.Port := Known 563,
         ServerResourceModel.Username := Known [],
         ServerResourceModel.Connections := Known 0,
         ServerResourceModel.SSL := Known True,
         ServerResourceModel.SSLVerify := Known 0,
         ServerResourceModel.Enable := Known False,
         ServerResourceModel.Timeout := Known 0,
         ServerResourceModel.Notes := Known []\<rparr>), ())"
    by (simp add: ServerResource_Read_def Let_def GetServer_example example_server_state_def
        ValueString_def zero_Server_def)
  show ?thesis
    using p r ServerResource_Read_keeps_password [OF r p]
    by (simp add: example_server_state_def)
qed

lemma if_ok_update:
  assumes "\<And>y. upd (\<lambda>old. old) y = y"
  shows "if_ok r (\<lambda>v. upd (\<lambda>_. g v)) x =
           upd (\<lambda>old. case r of Some v \<Rightarrow> g v | None \<Rightarrow> old) x"
  by (cases r) (simp_all add: if_ok_def assms)

lemmas Folders_if_ok =
  if_ok_update [of Folders.DownloadDir_update, simplified]
  if_ok_update [of Folders.DownloadFree_update, simplified]
  if_ok_update [of Folders.CompleteDir_update, simplified]
  if_ok_update [of Folders.CompleteFree_update, simplified]
  if_ok_update [of Folders.AutoResume_update, simplified]
  if_ok_update [of Folders.Permissions_update, simplified]
  if_ok_update [of Folders.WatchedDir_update, simplified]
  if_ok_update [of Folders.WatchedDirScanSpeed_update, simplified]
  if_ok_update [of Folders.ScriptsDir_update, simplified]
  if_ok_update [of Folders.EmailTemplatesDir_update, simplified]
  if_ok_update [of Folders.PasswordFile_update, simplified]
  if_ok_update [of Folders.NzbBackupDir_update, simplified]
  if_ok_update [of Folders.AdminDir_update, simplified]
  if_ok_update [of Folders.BackupDir_update, simplified]
  if_ok_update [of Folders.LogDir_update, simplified]

lemma GetFolders_fields_eq:
  "GetFolders_fields misc =
     \<lparr>Folders.DownloadDir =
        (case assert_string (map_of misc ''download_dir'') of Some v \<Rightarrow> v | None \<Rightarrow> []),
      Folders.DownloadFree =
        (case assert_string (map_of misc ''download_free'') of Some v \<Rightarrow> v | None \<Rightarrow> []),
      Folders.CompleteDir =
        (case assert_string (map_of misc ''complete_dir'') of Some v \<Rightarrow> v | None \<Rightarrow> []),
      Folders.CompleteFree =
        (case assert_string (map_of misc ''complete_free'') of Some v \<Rightarrow> v | None \<Rightarrow> []),
      Folders.AutoResume =
        (case assert_float64 (map_of misc ''auto_resume'') of
           Some v \<Rightarrow> float64_to_int v | None \<Rightarrow> 0),
      Folders.Permissions =
        (case assert_string (map_of misc ''permissions'') of Some v \<Rightarrow> v | None \<Rightarrow> []),
      Folders.WatchedDir =
        (case assert_string (map_of misc ''dirscan_dir'') of Some v \<Rightarrow> v | None \<Rightarrow> []),
      Folders.WatchedDirScanSpeed =
        (case assert_float64 (map_of misc ''dirscan_speed'') of
           Some v \<Rightarrow> float64_to_int v | None \<Rightarrow> 0),
      Folders.ScriptsDir =
        (case assert_string (map_of misc ''script_dir'') of Some v \<Rightarrow> v | None \<Rightarrow> []),
      Folders.EmailTemplatesDir =
        (case assert_string (map_of misc ''email_dir'') of Some v \<Rightarrow> v | None \<Rightarrow> []),
      Folders.PasswordFile =
        (case assert_string (map_of misc ''password_file'') of Some v \<Rightarrow> v | None \<Rightarrow> []),
      Folders.NzbBackupDir =
        (case assert_string (map_of misc ''nzb_backup_dir'') of Some v \<Rightarrow> v | None \<Rightarrow> []),
      Folders.AdminDir =
        (case assert_string (map_of misc ''admin_dir'') of Some v \<Rightarrow> v | None \<Rightarrow> []),
      Folders.BackupDir =
        (case assert_string (map_of misc ''backup_dir'') of Some v \<Rightarrow> v | None \<Rightarrow> []),
      Folders.LogDir =
        (case assert_string (map_of misc ''log_dir'') of Some v \<Rightarrow> v | None \<Rightarrow> [])\<rparr>"
  unfolding GetFolders_fields_def Let_def Folders_if_ok zero_Folders_def
  by simp

lemma assert_string_None: "(\<forall>v. x \<noteq> Some (AnyString v)) \<Longrightarrow> assert_string x = None"
  by (auto simp: assert_string_def split: option.splits any.splits)

lemma assert_float64_None: "(\<forall>v. x \<noteq> Some (AnyFloat64 v)) \<Longrightarrow> assert_float64 x = None"
  by (auto simp: assert_float64_def split: option.splits any.splits)

text \<open>
  Claim C9: whenever the configuration snapshot is fetched, \<^verbatim>\<open>GetFolders\<close> returns a
  result and no error, and for each of its keys, if the \<^verbatim>\<open>misc\<close> map has no entry
  for the key or the entry is not of the expected type (a string for the path fields, a
  number for \<^verbatim>\<open>auto_resume\<close> and \<^verbatim>\<open>dirscan_speed\<close>), the field of the result is the
  zero value.
\<close>

theorem GetFolders_lenient:
  assumes "GetConfig c w = (Inr config, w')"
  shows "\<exists>folders.
     GetFolders c w = (Inr folders, w') \<and>
     ((\<forall>v. map_of (Misc config) ''download_dir'' \<noteq> Some (AnyString v)) \<longrightarrow>
        Folders.DownloadDir folders = []) \<and>
     ((\<forall>v. map_of (Misc config) ''download_free'' \<noteq> Some (AnyString v)) \<longrightarrow>
        Folders.DownloadFree folders = []) \<and>
     ((\<forall>v. map_of (Misc config) ''complete_dir'' \<noteq> Some (AnyString v)) \<longrightarrow>
        Folders.CompleteDir folders = []) \<and>
     ((\<forall>v. map_of (Misc config) ''complete_free'' \<noteq> Some (AnyString v)) \<longrightarrow>
        Folders.CompleteFree folders = []) \<and>
     ((\<forall>v. map_of (Misc config) ''auto_resume'' \<noteq> Some (AnyFloat64 v)) \<longrightarrow>
        Folders.AutoResume folders = 0) \<and>
     ((\<forall>v. map_of (Misc config) ''permissions'' \<noteq> Some (AnyString v)) \<longrightarrow>
        Folders.Permissions folders = []) \<and>
     ((\<forall>v. map_of (Misc config) ''dirscan_dir'' \<noteq> Some (AnyString v)) \<longrightarrow>
        Folders.WatchedDir folders = []) \<and>
     ((\<forall>v. map_of (Misc config) ''dirscan_speed'' \<noteq> Some (AnyFloat64 v)) \<longrightarrow>
        Folders.WatchedDirScanSpeed folders = 0) \<and>
     ((\<forall>v. map_of (Misc config) ''script_dir'' \<noteq> Some (AnyString v)) \<longrightarrow>
        Folders.ScriptsDir folders = []) \<and>
     ((\<forall>v. map_of (Misc config) ''email_dir'' \<noteq> Some (AnyString v)) \<longrightarrow>
        Folders.EmailTemplatesDir folders = []) \<and>
     ((\<forall>v. map_of (Misc config) ''password_file'' \<noteq> Some (AnyString v)) \<longrightarrow>
        Folders.PasswordFile folders = []) \<and>
     ((\<forall>v. map_of (Misc config) ''nzb_backup_dir'' \<noteq> Some (AnyString v)) \<longrightarrow>
        Folders.NzbBackupDir folders = []) \<and>
     ((\<forall>v. map_of (Misc config) ''admin_dir'' \<noteq> Some (AnyString v)) \<longrightarrow>
        Folders.AdminDir folders = []) \<and>
     ((\<forall>v. map_of (Misc config) ''backup_dir'' \<noteq> Some (AnyString v)) \<longrightarrow>
        Folders.BackupDir folders = []) \<and>
     ((\<forall>v. map_of (Misc config) ''log_dir'' \<noteq> Some (AnyString v)) \<longrightarrow>
        Folders.LogDir folders = [])"
proof -
  have "GetFolders c w = (Inr (GetFolders_fields (Misc config)), w')"
    using assms by (simp add: GetFolders_def)
  then show ?thesis
    by (simp add: GetFolders_fields_eq assert_string_None assert_float64_None)
qed

lemma GetFolders_example:
  "GetFolders (example_client example_config_body) () =
     (Inr (zero_Folders\<lparr>Folders.DownloadDir := ''/data/incomplete'', Folders.AutoResume := 1\<rparr>), ())"
  by (simp add: GetFolders_def GetConfig_example GetFolders_fields_eq example_config_def
      assert_string_def assert_float64_def float64_to_int_def zero_Folders_def)

theorem GetFolders_lenient_witness:
  "GetConfig (example_client example_config_body) () = (Inr example_config, ()) \<and>
   map_of (Misc example_config) ''dirscan_speed'' = Some (AnyString ''fast'') \<and>
   map_of (Misc example_config) ''permissions'' = None \<and>
   GetFolders (example_client example_config_body) () =
     (Inr (zero_Folders\<lparr>Folders.DownloadDir := ''/data/incomplete'', Folders.AutoResume := 1\<rparr>), ()) \<and>
   Folders.WatchedDirScanSpeed
     (zero_Folders\<lparr>Folders.DownloadDir := ''/data/incomplete'', Folders.AutoResume := 1\<rparr>) = 0 \<and>
   Folders.Permissions
     (zero_Folders\<lparr>Folders.DownloadDir := ''/data/incomplete'', Folders.AutoResume := 1\<rparr>) = []"
proof -
  have s: "map_of (Misc example_config) ''dirscan_speed'' = Some (AnyString ''fast'')"
    by (simp add: example_config_def)
  have p: "map_of (Misc example_config) ''permissions'' = None"
    by (simp add: example_config_def)
  show ?thesis
    using GetFolders_lenient [OF GetConfig_example] GetConfig_example s p
    by (simp add: GetFolders_example zero_Folders_def)
qed

section \<open>The identity of the folders resource\<close>

text \<open>
  Claim C8: whatever the plan or the prior state holds, a \<^verbatim>\<open>Create\<close>, \<^verbatim>\<open>Read\<close> or
  \<^verbatim>\<open>Update\<close> of the folders resource that ends with a state ends with the id
  \<^verbatim>\<open>"folders"\<close>.
\<close>

theorem FoldersResource_id_constant:
  "(FoldersResource_Create client m w = (State s, w') \<longrightarrow> ID s = Known ''folders'') \<and>
   (FoldersResource_Read client m w = (State s, w') \<longrightarrow> ID s = Known ''folders'') \<and>
   (FoldersResource_Update client m w = (State s, w') \<longrightarrow> ID s = Known ''folders'')"
proof (intro conjI impI)
  assume "FoldersResource_Create client m w = (State s, w')"
  then show "ID s = Known ''folders''"
    by (auto simp: FoldersResource_Create_def Let_def split: option.splits prod.splits sum.splits)
next
  assume "FoldersResource_Read client m w = (State s, w')"
  then show "ID s = Known ''folders''"
    by (auto simp: FoldersResource_Read_def Let_def split: option.splits prod.splits sum.splits)
next
  assume "FoldersResource_Update client m w = (State s, w')"
  then show "ID s = Known ''folders''"
    by (auto simp: FoldersResource_Update_def Let_def split: option.splits prod.splits sum.splits)
qed

lemma SetFolders_example:
  "SetFolders (example_client (JSON (JObject [(''status'', JBool True)]))) input () = (Inr (), ())"
  by (simp add: SetFolders_def doRequest_def Let_def example_client_def NewClient_def serve_def
      Unmarshal_def dec_errorResp_def dec_struct_def dec_map_def field_for_def upper_def)

theorem FoldersResource_id_constant_witness:
  "FoldersResource_Create (Some (example_client (JSON (JObject [(''status'', JBool True)]))))
     example_folders_plan () =
     (State (example_folders_plan\<lparr>ID := Known ''folders''\<rparr>), ()) \<and>
   FoldersResource_Update (Some (example_client (JSON (JObject [(''status'', JBool True)]))))
     (example_folders_plan\<lparr>ID := Null\<rparr>) () =
     (State (example_folders_plan\<lparr>ID := Known ''folders''\<rparr>), ()) \<and>
   fst (FoldersResource_Read (Some (example_client example_config_body))
     (example_folders_plan\<lparr>ID := Known ''imported''\<rparr>) ()) =
     State (example_folders_plan
       \<lparr>ID := Known ''folders'',
        FoldersResourceModel.DownloadDir := Known ''/data/incomplete'',
        FoldersResourceModel.DownloadFree := Known [],
        FoldersResourceModel.CompleteDir := Known [],
        FoldersResourceModel.Permissions := Known [],
        FoldersResourceModel.WatchedDirScanSpeed := Known 0,
        FoldersResourceModel.AdminDir := Known [],
        FoldersResourceModel.BackupDir := Known [],
        FoldersResourceModel.LogDir := Known []\<rparr>) \<and>
   ID (example_folders_plan\<lparr>ID := Known ''folders''\<rparr>) = Known ''folders''"
proof -
  have c: "FoldersResource_Create (Some (example_client (JSON (JObject [(''status'', JBool True)]))))
     example_folders_plan () =
     (State (example_folders_plan\<lparr>ID := Known ''folders''\<rparr>), ())"
    by (simp add: FoldersResource_Create_def Let_def SetFolders_example)
  have u: "FoldersResource_Update (Some (example_client (JSON (JObject [(''status'', JBool True)]))))
     (example_folders_plan\<lparr>ID := Null\<rparr>) () =
     (State (example_folders_plan\<lparr>ID := Known ''folders''\<rparr>), ())"
    by (simp add: FoldersResource_Update_def Let_def SetFolders_example)
  have r: "FoldersResource_Read (Some (example_client example_config_body))
     (example_folders_plan\<lparr>ID := Known ''imported''\<rparr>) () =
     (State (example_folders_plan
       \<lparr>ID := Known ''folders'',
        FoldersResourceModel.DownloadDir := Known ''/data/incomplete'',
        FoldersResourceModel.DownloadFree := Known [],
        FoldersResourceModel.CompleteDir := Known [],
        FoldersResourceModel.Permissions := Known [],
        FoldersResourceModel.WatchedDirScanSpeed := Known 0,
        FoldersResourceModel.AdminDir := Known [],
        FoldersResourceModel.BackupDir := Known [],
        FoldersResourceModel.LogDir := Known []\<rparr>), ())"
    by (simp add: FoldersResource_Read_def Let_def GetFolders_example zero_Folders_def
        example_folders_plan_def)
  show ?thesis
    using c u r
      FoldersResource_id_constant
        [of "Some (example_client (JSON (JObject [(''status'', JBool True)])))"
            example_folders_plan "()" "example_folders_plan\<lparr>ID := Known ''folders''\<rparr>" "()"]
    by simp
qed

section \<open>Integers and query strings on the wire\<close>

lemma lt10_cases: "m < 10 \<Longrightarrow> m \<in> {0, 1, 2, 3, 4, 5, 6, 7, 8, 9::nat}"
  by auto

lemma digit_val_nth: "m < 10 \<Longrightarrow> digit_val (''0123456789'' ! m) = Some m"
  by (drule lt10_cases) (auto simp: digit_val_def)

lemma digit_val_digit: "digit_val (digit n) = Some (n mod 10)"
  by (simp add: digit_def digit_val_nth)

lemma digit_in: "digit n \<in> set ''0123456789''"
proof -
  have "n mod 10 < length ''0123456789''" by simp
  then show ?thesis unfolding digit_def by (rule nth_mem)
qed

lemma parse_nat_append_digit:
  "parse_nat acc (xs @ [digit d]) = map_option (\<lambda>a. 10 * a + d mod 10) (parse_nat acc xs)"
  by (induction xs arbitrary: acc) (auto simp: digit_val_digit split: option.splits)

lemma parse_nat_digits: "parse_nat 0 (digits n) = Some n"
proof (induction n rule: digits.induct)
  case (1 n)
  show ?case
  proof (cases "n < 10")
    case True
    then show ?thesis by (simp add: digits.simps [of n] digit_val_digit)
  next
    case False
    with 1 have "parse_nat 0 (digits (n div 10)) = Some (n div 10)" by simp
    with False show ?thesis
      by (simp add: digits.simps [of n] parse_nat_append_digit)
  qed
qed

lemma digits_set: "set (digits n) \<subseteq> set ''0123456789''"
proof (induction n rule: digits.induct)
  case (1 n)
  show ?case
  proof (cases "n < 10")
    case True
    then show ?thesis using digit_in [of n] by (simp add: digits.simps [of n])
  next
    case False
    with 1 have "set (digits (n div 10)) \<subseteq> set ''0123456789''" by simp
    with False show ?thesis using digit_in [of n] by (simp add: digits.simps [of n])
  qed
qed

lemma digits_not_Nil: "digits n \<noteq> []"
  by (subst digits.simps) simp

lemma digits_hd_not_minus: "digits n = c # cs \<Longrightarrow> c \<noteq> CHR ''-''"
  using digits_set [of n] by auto

lemma ParseInt_Itoa: "ParseInt (Itoa w) = Some w"
proof (cases "sint w < 0")
  case True
  have "- sint w \<le> 2 ^ 63" using sint_ge [of w] by simp
  then have "nat (- sint w) \<le> 2 ^ 63" by (simp add: nat_le_iff)
  moreover have "word_of_int (- int (nat (- sint w))) = w" using True by simp
  ultimately show ?thesis using True
    by (simp add: ParseInt_def Itoa_def digits_not_Nil parse_nat_digits)
next
  case False
  obtain c cs where d: "digits (nat (sint w)) = c # cs"
    using digits_not_Nil [of "nat (sint w)"] by (cases "digits (nat (sint w))") auto
  have "sint w < 2 ^ 63" using sint_lt [of w] by simp
  then have "nat (sint w) < 2 ^ 63" using False by (simp add: nat_less_iff)
  moreover have "word_of_nat (nat (sint w)) = w" using False by (simp add: of_nat_nat)
  moreover have "parse_nat 0 (c # cs) = Some (nat (sint w))" using parse_nat_digits [of "nat (sint w)"] d by simp
  ultimately show ?thesis using False d digits_hd_not_minus [OF d]
    by (simp add: ParseInt_def Itoa_def)
qed

lemma hexval_nth: "\<forall>m<16. hexval (''0123456789ABCDEF'' ! m) = Some m"
  by (simp add: eval_nat_numeral All_less_Suc hexval_def)

lemma hexval_upperhex: "hexval (upperhex n) = Some (n mod 16)"
  by (simp add: upperhex_def hexval_nth)

lemma upperhex_not_sep: "\<forall>m<16. ''0123456789ABCDEF'' ! m \<noteq> CHR ''&'' \<and> ''0123456789ABCDEF'' ! m \<noteq> CHR ''=''"
  by (simp add: eval_nat_numeral All_less_Suc)

lemma upperhex_sep: "upperhex n \<noteq> CHR ''&''" "upperhex n \<noteq> CHR ''=''"
  using upperhex_not_sep by (simp_all add: upperhex_def)

lemma char_of_div_mod: "char_of (16 * ((of_char c :: nat) div 16 mod 16) + of_char c mod 16) = c"
proof -
  have "(of_char c :: nat) < 16 * 16" by simp
  then have "(of_char c :: nat) div 16 < 16" by (rule less_mult_imp_div_less)
  then have "16 * ((of_char c :: nat) div 16 mod 16) + of_char c mod 16 = of_char c" by simp
  then show ?thesis by simp
qed

lemma reserved_escaped:
  "shouldEscape CHR ''&''" "shouldEscape CHR ''=''" "shouldEscape CHR ''%''" "shouldEscape CHR ''+''"
  by (simp_all add: shouldEscape_def)

lemma QueryUnescape_escape:
  "QueryUnescape (escape c @ t) = map_option ((#) c) (QueryUnescape t)"
proof (cases "c = CHR '' ''")
  case True
  then show ?thesis by (simp add: escape_def)
next
  case sp: False
  show ?thesis
  proof (cases "shouldEscape c")
    case True
    then show ?thesis using sp
      by (simp add: escape_def hexval_upperhex char_of_div_mod)
  next
    case False
    then have "c \<noteq> CHR ''%''" "c \<noteq> CHR ''+''" using reserved_escaped by auto
    with False sp show ?thesis by (simp add: escape_def)
  qed
qed

lemma QueryUnescape_QueryEscape_append:
  "QueryUnescape (QueryEscape s @ t) = map_option ((@) s) (QueryUnescape t)"
proof (induction s)
  case Nil
  then show ?case by (simp add: QueryEscape_def option.map_ident)
next
  case (Cons c s)
  have "QueryUnescape (QueryEscape (c # s) @ t) = QueryUnescape (escape c @ (QueryEscape s @ t))"
    by (simp add: QueryEscape_def)
  also have "\<dots> = map_option ((#) c) (QueryUnescape (QueryEscape s @ t))"
    by (rule QueryUnescape_escape)
  finally show ?case using Cons by (simp add: option.map_comp comp_def)
qed

lemma QueryUnescape_QueryEscape: "QueryUnescape (QueryEscape s) = Some s"
  using QueryUnescape_QueryEscape_append [of s "[]"] by simp

lemma escape_no_sep: "CHR ''&'' \<notin> set (escape c) \<and> CHR ''='' \<notin> set (escape c)"
proof (cases "c = CHR '' ''")
  case True
  then show ?thesis by (simp add: escape_def)
next
  case sp: False
  show ?thesis
  proof (cases "shouldEscape c")
    case True
    then show ?thesis using sp upperhex_sep [of "of_char c div 16"] upperhex_sep [of "of_char c"]
      by (auto simp: escape_def)
  next
    case False
    then have "c \<noteq> CHR ''&''" "c \<noteq> CHR ''=''" using reserved_escaped by auto
    with False sp show ?thesis by (simp add: escape_def)
  qed
qed

lemma QueryEscape_no_sep: "CHR ''&'' \<notin> set (QueryEscape s)" "CHR ''='' \<notin> set (QueryEscape s)"
  using escape_no_sep by (auto simp: QueryEscape_def)

lemma Split_no_sep: "sep \<notin> set x \<Longrightarrow> Split (x @ sep # rest) sep = x # Split rest sep"
  by (induction x) auto

lemma Split_no_sep_end: "sep \<notin> set x \<Longrightarrow> Split x sep = [x]"
  by (induction x) auto

lemma Split_Join:
  "xs \<noteq> [] \<Longrightarrow> \<forall>x\<in>set xs. sep \<notin> set x \<Longrightarrow> Split (Join xs [sep]) sep = xs"
proof (induction xs "[sep]" rule: Join.induct)
  case 1
  then show ?case by simp
next
  case (2 x)
  then show ?case by (simp add: Split_no_sep_end)
next
  case (3 x y ys)
  then show ?case by (simp add: Split_no_sep)
qed

lemma Cut_no_sep: "sep \<notin> set k \<Longrightarrow> Cut (k @ sep # v) sep = (k, v)"
  by (induction k) (auto simp: Cut_def)

lemma those_map_Some: "those (map (\<lambda>k. Some (h k)) ks) = Some (map h ks)"
  by (induction ks) simp_all

lemma Join_Nil_iff: "Join xs sep = [] \<Longrightarrow> sep \<noteq> [] \<Longrightarrow> xs = [] \<or> xs = [[]]"
  by (induction xs sep rule: Join.induct) auto

lemma ParseQuery_Encode:
  "ParseQuery (Encode v) =
     Some (map (\<lambda>k. (k, case map_of v k of Some x \<Rightarrow> x | None \<Rightarrow> [])) (sort (remdups (map fst v))))"
proof -
  define val where "val k = (case map_of v k of Some x \<Rightarrow> x | None \<Rightarrow> [])" for k
  define keys where "keys = sort (remdups (map fst v))"
  define piece where "piece k = QueryEscape k @ CHR ''='' # QueryEscape (val k)" for k
  have "piece = (\<lambda>k. QueryEscape k @ ''='' @ QueryEscape (case map_of v k of Some x \<Rightarrow> x | None \<Rightarrow> []))"
    by (rule ext) (simp add: piece_def val_def)
  then have enc: "Encode v = Join (map piece keys) [CHR ''&'']"
    by (simp add: Encode_def keys_def)
  define pp where "pp = (\<lambda>p. case Cut p CHR ''='' of
                        (k, v) \<Rightarrow>
                          (case (QueryUnescape k, QueryUnescape v) of
                             (Some k', Some v') \<Rightarrow> Some (k', v')
                           | _ \<Rightarrow> None))"
  have pq: "ParseQuery q = those (map pp (filter (\<lambda>p. p \<noteq> []) (Split q CHR ''&'')))" for q
    unfolding ParseQuery_def pp_def ..
  have parse: "pp (piece k) = Some (k, val k)" for k
    by (simp add: pp_def piece_def Cut_no_sep QueryEscape_no_sep QueryUnescape_QueryEscape)
  have nonempty: "piece k \<noteq> []" for k by (simp add: piece_def)
  have nosep: "CHR ''&'' \<notin> set (piece k)" for k by (simp add: piece_def QueryEscape_no_sep)
  show ?thesis
  proof (cases "keys = []")
    case True
    then show ?thesis using enc by (simp add: pq keys_def)
  next
    case False
    then have "Split (Encode v) CHR ''&'' = map piece keys"
      using enc nosep by (simp add: Split_Join)
    moreover have "filter (\<lambda>p. p \<noteq> []) (map piece keys) = map piece keys"
      using nonempty by (simp add: filter_map comp_def)
    ultimately have "ParseQuery (Encode v) = those (map (\<lambda>k. Some (k, val k)) keys)"
      by (simp add: pq comp_def parse)
    then show ?thesis by (simp add: those_map_Some keys_def val_def)
  qed
qed

lemma map_of_ParseQuery_Encode:
  "\<exists>qs. ParseQuery (Encode v) = Some qs \<and> map_of qs = map_of v"
proof -
  let ?qs = "map (\<lambda>k. (k, case map_of v k of Some x \<Rightarrow> x | None \<Rightarrow> [])) (sort (remdups (map fst v)))"
  have "map_of ?qs k = map_of v k" for k
  proof (cases "map_of v k")
    case None
    then have "k \<notin> fst ` set v" by (simp add: map_of_eq_None_iff)
    then show ?thesis using None by (simp add: map_of_map_restrict restrict_map_def)
  next
    case (Some x)
    then have "k \<in> fst ` set v" by (force dest: map_of_SomeD)
    then show ?thesis using Some by (simp add: map_of_map_restrict restrict_map_def)
  qed
  then have "map_of ?qs = map_of v" by (rule ext)
  then show ?thesis using ParseQuery_Encode by blast
qed

section \<open>The request URL\<close>

lemma TrimSuffix_slash: "TrimSuffix (v @ ''/'') ''/'' = v"
  by (simp add: TrimSuffix_def HasSuffix_def)

lemma TrimSuffix_none: "\<not> HasSuffix u ''/'' \<Longrightarrow> TrimSuffix u ''/'' = u"
  by (simp add: TrimSuffix_def)

text \<open>
  Claim C10: the one request of a call to \<^verbatim>\<open>doRequest\<close> goes to the base URL the
  client was created with, less one trailing slash if it had one, followed by
  \<^verbatim>\<open>/api?\<close> and the encoded parameters; the encoded parameters carry \<^verbatim>\<open>apikey\<close>
  with the client's key and \<^verbatim>\<open>output\<close> with \<^verbatim>\<open>json\<close> (parsing the query string gives
  them back); so a base URL written with a trailing slash and the same URL written
  without it lead to the same requests.
\<close>

theorem doRequest_request_url:
  "snd (doRequest (NewClient u k (recording answer)) params result urls) =
     urls @ [TrimSuffix u ''/'' @ ''/api?'' @
       Encode (Values_Set ''output'' ''json'' (Values_Set ''apikey'' k params))] \<and>
   (\<exists>query.
      ParseQuery (Encode (Values_Set ''output'' ''json'' (Values_Set ''apikey'' k params))) =
        Some query \<and>
      map_of query ''apikey'' = Some k \<and> map_of query ''output'' = Some ''json'') \<and>
   baseURL (NewClient (u @ ''/'') k net) = u \<and>
   (\<not> HasSuffix u ''/'' \<longrightarrow>
      doRequest (NewClient (u @ ''/'') k net) params result w =
      doRequest (NewClient u k net) params result w)"
proof (intro conjI impI)
  show "snd (doRequest (NewClient u k (recording answer)) params result urls) =
     urls @ [TrimSuffix u ''/'' @ ''/api?'' @
       Encode (Values_Set ''output'' ''json'' (Values_Set ''apikey'' k params))]"
    by (simp add: NewClient_def doRequest_recording)
  show "\<exists>query.
      ParseQuery (Encode (Values_Set ''output'' ''json'' (Values_Set ''apikey'' k params))) =
        Some query \<and>
      map_of query ''apikey'' = Some k \<and> map_of query ''output'' = Some ''json''"
    using map_of_ParseQuery_Encode
      [of "Values_Set ''output'' ''json'' (Values_Set ''apikey'' k params)"]
    by (auto simp: map_of_Values_Set)
  show "baseURL (NewClient (u @ ''/'') k net) = u"
    by (simp add: NewClient_def TrimSuffix_slash)
  assume "\<not> HasSuffix u ''/''"
  then show "doRequest (NewClient (u @ ''/'') k net) params result w =
      doRequest (NewClient u k net) params result w"
    by (simp add: NewClient_def TrimSuffix_slash TrimSuffix_none)
qed

theorem doRequest_request_url_witness:
  "\<not> HasSuffix ''http://localhost:8080'' ''/'' \<and>
   doRequest (NewClient ''http://localhost:8080/'' ''0123 abc'' (recording (always NotJSON)))
     [(''mode'', ''get_config'')] (Some (dec_map, [])) [] =
   doRequest (NewClient ''http://localhost:8080'' ''0123 abc'' (recording (always NotJSON)))
     [(''mode'', ''get_config'')] (Some (dec_map, [])) [] \<and>
   snd (doRequest (NewClient ''http://localhost:8080/'' ''0123 abc'' (recording (always NotJSON)))
     [(''mode'', ''get_config'')] (Some (dec_map, [])) []) =
   [''http://localhost:8080/api?apikey=0123+abc&mode=get_config&output=json'']"
proof -
  have h: "\<not> HasSuffix ''http://localhost:8080'' ''/''"
    by (simp add: HasSuffix_def)
  have e: "Encode (Values_Set ''output'' ''json'' (Values_Set ''apikey'' ''0123 abc'' [(''mode'', ''get_config'')])) =
      ''apikey=0123+abc&mode=get_config&output=json''"
    by (simp add: Encode_def Values_Set_def QueryEscape_def escape_def shouldEscape_def)
  show ?thesis
    using h e
      doRequest_request_url [of "''http://localhost:8080''" "''0123 abc''" "always NotJSON"
        "[(''mode'', ''get_config'')]" "Some (dec_map, [])" "[]" "recording (always NotJSON)" "[]"]
      doRequest_request_url [of "''http://localhost:8080/''" "''0123 abc''" "always NotJSON"
        "[(''mode'', ''get_config'')]" "Some (dec_map, [])" "[]" "recording (always NotJSON)" "[]"]
    by (simp add: TrimSuffix_slash [of "''http://localhost:8080''", simplified])
qed

section \<open>The round trip of a category\<close>

lemma unquote_valid: "ValidString s \<Longrightarrow> unquote s = s"
  by (induction s rule: unquote.induct) simp_all

lemma Category_received_valid:
  "ValidString (Category.Name cat) \<Longrightarrow> ValidString (Category.Dir cat) \<Longrightarrow>
   ValidString (Category.Script cat) \<Longrightarrow> ValidString (Category.PP cat) \<Longrightarrow>
   Category_received cat = cat"
  by (simp add: Category_received_def unquote_valid)

lemma sabnzbd_request:
  "sabnzbd origin (origin @ ''/api?'' @ Encode ps) cats =
     (if map_of ps ''mode'' = Some ''get_config'' then
        (reply (JObject
           [(''config'', JObject [(''categories'', JArray (map json_of_Category cats))])]), cats)
      else if map_of ps ''mode'' = Some ''set_config'' \<and> map_of ps ''section'' = Some ''categories'' then
        (case category_of_query (map_of ps) of
           None \<Rightarrow> (reply (api_error ''bad category''), cats)
         | Some cat \<Rightarrow> (reply (JObject [(''status'', JBool True)]), upsert cat cats))
      else (reply (api_error ''not implemented''), cats))"
proof -
  obtain qs where "ParseQuery (Encode ps) = Some qs" "map_of qs = map_of ps"
    using map_of_ParseQuery_Encode by blast
  then show ?thesis by (simp add: sabnzbd_def Let_def)
qed

lemma sabnzbd_request_Cons:
  "sabnzbd origin (origin @ CHR ''/'' # CHR ''a'' # CHR ''p'' # CHR ''i'' # CHR ''?'' # Encode ps) cats =
     (if map_of ps ''mode'' = Some ''get_config'' then
        (reply (JObject
           [(''config'', JObject [(''categories'', JArray (map json_of_Category cats))])]), cats)
      else if map_of ps ''mode'' = Some ''set_config'' \<and> map_of ps ''section'' = Some ''categories'' then
        (case category_of_query (map_of ps) of
           None \<Rightarrow> (reply (api_error ''bad category''), cats)
         | Some cat \<Rightarrow> (reply (JObject [(''status'', JBool True)]), upsert cat cats))
      else (reply (api_error ''not implemented''), cats))"
  using sabnzbd_request [of origin ps cats] by simp

lemma received_json_of_Category:
  "received (json_of_Category cat) = json_of_Category (Category_received cat)"
  by (simp add: json_of_Category_def Category_received_def JInt_def rune_width_def)

lemma received_elems_Category:
  "received_elems (map json_of_Category cats) = map json_of_Category (map Category_received cats)"
  by (induction cats) (simp_all add: received_json_of_Category)

lemma reply_config:
  "reply (JObject [(''config'', JObject [(''categories'', JArray (map json_of_Category cats))])]) =
     Response (JSON (JObject
       [(''config'', JObject
          [(''categories'', JArray (map json_of_Category (map Category_received cats)))])]))"
  by (simp add: reply_def received_elems_Category rune_width_def)

lemma reply_status:
  "reply (JObject [(''status'', JBool True)]) = Response (JSON (JObject [(''status'', JBool True)]))"
  by (simp add: reply_def rune_width_def)

lemma dec_Category_json: "dec_Category (json_of_Category cat) a = Inr cat"
  by (cases cat; cases a)
    (simp add: dec_Category_def json_of_Category_def JInt_def dec_struct_def field_for_def
      field_def dec_string_def dec_int_def)

lemma dec_elems_Category:
  "dec_elems dec_Category z (map json_of_Category cats) cur = Inr cats"
  by (induction cats arbitrary: cur) (simp_all add: dec_Category_json)

lemma dec_elems_Category_comp:
  "dec_elems dec_Category z (map (json_of_Category \<circ> g) cats) cur = Inr (map g cats)"
  using dec_elems_Category [of z "map g cats" cur] by simp

lemma GetConfig_sabnzbd:
  "GetConfig \<lparr>baseURL = origin, apiKey = key, httpClient = sabnzbd origin\<rparr> cats =
     (Inr (zero_Config\<lparr>Categories := map Category_received cats\<rparr>), cats)"
  by (simp add: GetConfig_def doRequest_def Let_def sabnzbd_request_Cons map_of_Values_Set
      reply_config Unmarshal_def dec_errorResp_def dec_GetConfigResponse_def dec_Config_def
      dec_struct_def dec_slice_def field_for_def field_def upper_def dec_elems_Category_comp
      zero_GetConfigResponse_def zero_Config_def)

lemma find_received_upsert:
  "list_all (\<lambda>x. ValidString (Category.Name x)) cats \<Longrightarrow> ValidString (Category.Name cat) \<Longrightarrow>
   find (\<lambda>x. Category.Name x = Category.Name cat) (map Category_received (upsert cat cats)) =
     Some (Category_received cat)"
  by (induction cats) (auto simp: Category_received_def unquote_valid)

lemma SetCategory_params_lookup:
  "map_of (SetCategory_params input) ''mode'' = Some ''set_config''"
  "map_of (SetCategory_params input) ''section'' = Some ''categories''"
  "map_of (SetCategory_params input) ''name'' = Some (CategoryInput.Name input)"
  "map_of (SetCategory_params input) ''dir'' = Some (CategoryInput.Dir input)"
  "map_of (SetCategory_params input) ''script'' = Some (CategoryInput.Script input)"
  "map_of (SetCategory_params input) ''priority'' = Some (Itoa (CategoryInput.Priority input))"
  "map_of (SetCategory_params input) ''pp'' = Some (CategoryInput.PP input)"
  "map_of (SetCategory_params input) ''order'' = Some (Itoa (CategoryInput.Order input))"
  by (simp_all add: SetCategory_params_def Let_def map_of_Values_Set)

lemma SetCategory_sabnzbd:
  "SetCategory \<lparr>baseURL = origin, apiKey = key, httpClient = sabnzbd origin\<rparr> input cats =
     (Inr (),
      upsert \<lparr>Category.Name = CategoryInput.Name input, Dir = CategoryInput.Dir input,
              Category.Script = CategoryInput.Script input,
              Category.Priority = CategoryInput.Priority input,
              Category.PP = CategoryInput.PP input,
              Category.Order = CategoryInput.Order input\<rparr> cats)"
  by (simp add: SetCategory_def doRequest_def Let_def sabnzbd_request_Cons map_of_Values_Set
      SetCategory_params_lookup category_of_query_def ParseInt_Itoa reply_status
      Unmarshal_def dec_errorResp_def dec_struct_def dec_map_def field_for_def upper_def)

text \<open>
  Claim C3: a valid category input is one whose strings are well-formed UTF-8, the
  text that a JSON reply carries unchanged. For every such input, against a remote that
  stores the field values it is sent under the name it is sent and holds categories
  with well-formed names, \<^verbatim>\<open>SetCategory\<close> succeeds and \<^verbatim>\<open>GetCategory\<close> on the input's
  name then returns a category whose name, dir, script, priority, pp and order are
  those of the input: no field of a category is write-only.
\<close>

theorem Category_round_trip:
  assumes "ValidString (CategoryInput.Name input)"
    and "ValidString (CategoryInput.Dir input)"
    and "ValidString (CategoryInput.Script input)"
    and "ValidString (CategoryInput.PP input)"
    and "list_all (\<lambda>cat. ValidString (Category.Name cat)) cats"
  shows "\<exists>cats'.
     SetCategory \<lparr>baseURL = origin, apiKey = key, httpClient = sabnzbd origin\<rparr> input cats =
       (Inr (), cats') \<and>
     GetCategory \<lparr>baseURL = origin, apiKey = key, httpClient = sabnzbd origin\<rparr>
         (CategoryInput.Name input) cats' =
       (Inr \<lparr>Category.Name = CategoryInput.Name input, Dir = CategoryInput.Dir input,
              Category.Script = CategoryInput.Script input,
              Category.Priority = CategoryInput.Priority input,
              Category.PP = CategoryInput.PP input,
              Category.Order = CategoryInput.Order input\<rparr>, cats')"
proof -
  let ?cat = "\<lparr>Category.Name = CategoryInput.Name input, Dir = CategoryInput.Dir input,
              Category.Script = CategoryInput.Script input,
              Category.Priority = CategoryInput.Priority input,
              Category.PP = CategoryInput.PP input,
              Category.Order = CategoryInput.Order input\<rparr>"
  have r: "Category_received ?cat = ?cat"
    using assms(1-4) by (simp add: Category_received_valid)
  have "find (\<lambda>x. Category.Name x = CategoryInput.Name input)
          (map Category_received (upsert ?cat cats)) = Some ?cat"
    using find_received_upsert [of cats ?cat] assms(1,5) r by simp
  then have "GetCategory \<lparr>baseURL = origin, apiKey = key, httpClient = sabnzbd origin\<rparr>
         (CategoryInput.Name input) (upsert ?cat cats) = (Inr ?cat, upsert ?cat cats)"
    by (simp add: GetCategory_def GetConfig_sabnzbd)
  then show ?thesis using SetCategory_sabnzbd by blast
qed

theorem Category_round_trip_witness:
  "ValidString ''tv'' \<and> ValidString ''TV Shows'' \<and> ValidString ''None'' \<and> ValidString ''3'' \<and>
   list_all (\<lambda>cat. ValidString (Category.Name cat)) [zero_Category\<lparr>Category.Name := ''movies''\<rparr>] \<and>
   SetCategory
     \<lparr>baseURL = ''http://localhost:8080'', apiKey = ''0123456789abcdef'',
      httpClient = sabnzbd ''http://localhost:8080''\<rparr>
     \<lparr>CategoryInput.Name = ''tv'', CategoryInput.Dir = ''TV Shows'',
      CategoryInput.Script = ''None'', CategoryInput.Priority = 1, CategoryInput.PP = ''3'',
      CategoryInput.Order = 0\<rparr>
     [zero_Category\<lparr>Category.Name := ''movies''\<rparr>] =
   (Inr (),
    [zero_Category\<lparr>Category.Name := ''movies''\<rparr>,
     \<lparr>Category.Name = ''tv'', Dir = ''TV Shows'', Category.Script = ''None'',
      Category.Priority = 1, Category.PP = ''3'', Category.Order = 0\<rparr>]) \<and>
   GetCategory
     \<lparr>baseURL = ''http://localhost:8080'', apiKey = ''0123456789abcdef'',
      httpClient = sabnzbd ''http://localhost:8080''\<rparr>
     ''tv''
     [zero_Category\<lparr>Category.Name := ''movies''\<rparr>,
      \<lparr>Category.Name = ''tv'', Dir = ''TV Shows'', Category.Script = ''None'',
       Category.Priority = 1, Category.PP = ''3'', Category.Order = 0\<rparr>] =
   (Inr \<lparr>Category.Name = ''tv'', Dir = ''TV Shows'', Category.Script = ''None'',
          Category.Priority = 1, Category.PP = ''3'', Category.Order = 0\<rparr>,
    [zero_Category\<lparr>Category.Name := ''movies''\<rparr>,
     \<lparr>Category.Name = ''tv'', Dir = ''TV Shows'', Category.Script = ''None'',
      Category.Priority = 1, Category.PP = ''3'', Category.Order = 0\<rparr>])"
proof -
  have v: "ValidString ''tv''" "ValidString ''TV Shows''" "ValidString ''None''" "ValidString ''3''"
    by (simp_all add: rune_width_def)
  have l: "list_all (\<lambda>cat. ValidString (Category.Name cat)) [zero_Category\<lparr>Category.Name := ''movies''\<rparr>]"
    by (simp add: rune_width_def)
  show ?thesis
    using v l
      Category_round_trip
        [of "\<lparr>CategoryInput.Name = ''tv'', CategoryInput.Dir = ''TV Shows'',
              CategoryInput.Script = ''None'', CategoryInput.Priority = 1, CategoryInput.PP = ''3'',
              CategoryInput.Order = 0\<rparr>"
            "[zero_Category\<lparr>Category.Name := ''movies''\<rparr>]"
            "''http://localhost:8080''" "''0123456789abcdef''"]
    by (simp add: SetCategory_sabnzbd zero_Category_def)
qed

text \<open>
  The hypothesis on the strings is needed: a byte that begins no well-formed encoding
  is stored by the remote as it is and read back as U+FFFD.
\<close>

lemma GetCategory_reads_replacement:
  "SetCategory
     \<lparr>baseURL = ''http://localhost:8080'', apiKey = ''0123456789abcdef'',
      httpClient = sabnzbd ''http://localhost:8080''\<rparr>
     \<lparr>CategoryInput.Name = ''tv'', CategoryInput.Dir = [CHR ''d'', CHR 0xC3],
      CategoryInput.Script = ''None'', CategoryInput.Priority = 1, CategoryInput.PP = ''3'',
      CategoryInput.Order = 0\<rparr> [] =
   (Inr (),
    [\<lparr>Category.Name = ''tv'', Dir = [CHR ''d'', CHR 0xC3], Category.Script = ''None'',
      Category.Priority = 1, Category.PP = ''3'', Category.Order = 0\<rparr>]) \<and>
   GetCategory
     \<lparr>baseURL = ''http://localhost:8080'', apiKey = ''0123456789abcdef'',
      httpClient = sabnzbd ''http://localhost:8080''\<rparr>
     ''tv''
     [\<lparr>Category.Name = ''tv'', Dir = [CHR ''d'', CHR 0xC3], Category.Script = ''None'',
       Category.Priority = 1, Category.PP = ''3'', Category.Order = 0\<rparr>] =
   (Inr \<lparr>Category.Name = ''tv'', Dir = [CHR ''d'', CHR 0xEF, CHR 0xBF, CHR 0xBD],
          Category.Script = ''None'', Category.Priority = 1, Category.PP = ''3'',
          Category.Order = 0\<rparr>,
    [\<lparr>Category.Name = ''tv'', Dir = [CHR ''d'', CHR 0xC3], Category.Script = ''None'',
      Category.Priority = 1, Category.PP = ''3'', Category.Order = 0\<rparr>])"
  by (simp add: SetCategory_sabnzbd GetCategory_def GetConfig_sabnzbd Category_received_def
      rune_width_def between_def accept_def)

end
